theory Spec2Isabelle
  imports Complex_Main "HOL-Library.AList" "HOL-Library.Log_Nat"
begin

section \<open>Numbers\<close>

text \<open>
  The engine computes with Python \<^verbatim>\<open>float\<close> and \<^verbatim>\<open>int\<close> values. A number is embedded
  as the rational it denotes (\<^typ>\<open>rat\<close>), except the investor's age, which the source
  declares \<^verbatim>\<open>int\<close> and which stays an \<^typ>\<open>int\<close>. The special values \<^verbatim>\<open>nan\<close> and
  \<^verbatim>\<open>inf\<close> are outside the model.

  The arithmetic is given at two levels. The functions carrying the source's names compute
  over the rationals exactly; they decide the claims that rest on comparisons, on the
  shape of the results and on bounds wider than a rounding step. The functions with the
  suffix \<open>_fp\<close> round the result of every arithmetic operation to the nearest double, in
  the source's order of evaluation; they decide the claims about the digits the program
  stores.

  \<^verbatim>\<open>round(x, 2)\<close> rounds to two decimals, a tie going to the even neighbour.
\<close>

definition py_round :: "rat \<Rightarrow> int" where
  "py_round x =
     (let f = \<lfloor>x\<rfloor>; d = x - of_int f
      in if d < 1 / 2 then f
         else if 1 / 2 < d then f + 1
         else if even f then f else f + 1)"

definition round2 :: "rat \<Rightarrow> rat" where
  "round2 x = of_int (py_round (x * 100)) / 100"

section \<open>Double-precision arithmetic\<close>

text \<open>
  A Python \<^verbatim>\<open>float\<close> is an IEEE 754 double: zero, or a 53-bit integer times a power of
  two whose exponent is at least -1074. \<open>fl\<close> rounds a rational to the nearest double, a
  tie going to the even mantissa; below the normal range (exponent of the leading bit
  under -1022) the spacing stays at \<open>2\<close> to the power -1074. Overflow beyond the largest
  double is outside the model. Each arithmetic operation of the interpreter returns the
  rounded exact result, and an \<^verbatim>\<open>int\<close> operand below \<open>2\<close> to the power 53 enters it
  unchanged.

  \<^verbatim>\<open>round(x, 2)\<close> on a double takes the two-decimal value nearest to the exact value of
  \<open>x\<close> (a tie going to the even neighbour) and returns the double nearest to it.
  \<^verbatim>\<open>sum(xs)\<close> adds from the left, starting at 0, each addition rounded (CPython up to
  3.11; later versions carry a compensation term, with the same result whenever the
  partial sums are doubles).
\<close>

definition pow2 :: "int \<Rightarrow> rat" where
  "pow2 k = (if 0 \<le> k then 2 ^ nat k else 1 / 2 ^ nat (- k))"

text \<open>The exponent of the leading bit of a positive rational.\<close>

definition ilog2 :: "rat \<Rightarrow> int" where
  "ilog2 a = (if 1 \<le> a then bitlen \<lfloor>a\<rfloor> - 1 else - bitlen (\<lceil>1 / a\<rceil> - 1))"

definition fl :: "rat \<Rightarrow> rat" where
  "fl x =
     (if x = 0 then 0
      else let a = \<bar>x\<bar>;
               e = max (ilog2 a) (- 1022);
               q = e - 52;
               m = py_round (a / pow2 q)
           in sgn x * of_int m * pow2 q)"

definition fadd :: "rat \<Rightarrow> rat \<Rightarrow> rat" where
  "fadd x y = fl (x + y)"

definition fsub :: "rat \<Rightarrow> rat \<Rightarrow> rat" where
  "fsub x y = fl (x - y)"

definition fmul :: "rat \<Rightarrow> rat \<Rightarrow> rat" where
  "fmul x y = fl (x * y)"

definition fdiv :: "rat \<Rightarrow> rat \<Rightarrow> rat" where
  "fdiv x y = fl (x / y)"

definition fround2 :: "rat \<Rightarrow> rat" where
  "fround2 x = fl (round2 x)"

definition fsum :: "rat list \<Rightarrow> rat" where
  "fsum xs = fold (\<lambda>x acc. fadd acc x) xs 0"

section \<open>Dictionaries\<close>

text \<open>
  A Python \<^verbatim>\<open>dict\<close> keeps its keys in insertion order; it is embedded as an association
  list. \<^verbatim>\<open>d[k] = v\<close> is \<^const>\<open>AList.update\<close> (overwrite in place, or append a new key),
  \<^verbatim>\<open>d.get(k, default)\<close> is \<open>dict_get\<close>, and \<^verbatim>\<open>{**a, **b}\<close> is \<open>dict_merge\<close>.
\<close>

type_synonym ('k, 'v) dict = "('k \<times> 'v) list"

definition dict_get :: "('k, 'v) dict \<Rightarrow> 'k \<Rightarrow> 'v \<Rightarrow> 'v" where
  "dict_get d k dflt = (case map_of d k of None \<Rightarrow> dflt | Some v \<Rightarrow> v)"

definition dict_merge :: "('k, 'v) dict \<Rightarrow> ('k, 'v) dict \<Rightarrow> ('k, 'v) dict" where
  "dict_merge a b = fold (\<lambda>(k, v) acc. AList.update k v acc) b a"

text \<open>\<^verbatim>\<open>sep.join(xs)\<close> on strings.\<close>

fun join :: "string \<Rightarrow> string list \<Rightarrow> string" where
  "join sep [] = []"
| "join sep [x] = x"
| "join sep (x # y # ys) = x @ sep @ join sep (y # ys)"

section \<open>Data model\<close>

datatype RiskProfile = conservative | moderate | aggressive

datatype EquityStrategy = index_core | market_weighted | balanced_growth | aggressive_growth

datatype GoalTimeframe = short_term | medium_term | long_term

datatype error = ValueError string | KeyError string

record FinancialGoal =
  goal_name :: string
  target_amount :: rat
  years_to_goal :: int
  priority :: int
  monthly_allocation :: rat

definition timeframe :: "FinancialGoal \<Rightarrow> GoalTimeframe" where
  "timeframe g =
     (if years_to_goal g \<le> 3 then short_term
      else if years_to_goal g \<le> 7 then medium_term
      else long_term)"

record UserProfile =
  age :: int
  monthly_income :: rat
  monthly_investment :: rat
  lump_sum_investment :: rat
  risk_profile :: "RiskProfile option"
  has_emergency_fund :: bool
  has_adequate_insurance :: bool
  custom_equity_percentage :: "rat option"
  goals :: "FinancialGoal list"

record FundAllocation =
  category :: string
  subcategory :: string
  percentage :: rat
  amount :: rat
  recommended_funds :: "string list"

section \<open>Profile validation\<close>

text \<open>
  \<^verbatim>\<open>UserProfile.validate\<close>: six independent checks, each appending its message to the
  list \<^verbatim>\<open>errors\<close>; the result is \<^verbatim>\<open>(len(errors) == 0, errors)\<close>.
\<close>

definition validate :: "UserProfile \<Rightarrow> bool \<times> string list" where
  "validate p =
     (let errors = [];
          errors = (if age p < 18 \<or> age p > 100
                    then errors @ [''Age must be between 18 and 100''] else errors);
          errors = (if monthly_income p < 0
                    then errors @ [''Monthly income cannot be negative''] else errors);
          errors = (if monthly_investment p < 0
                    then errors @ [''Monthly investment cannot be negative''] else errors);
          errors = (if monthly_investment p > monthly_income p
                    then errors @ [''Monthly investment cannot exceed monthly income'']
                    else errors);
          errors = (if lump_sum_investment p < 0
                    then errors @ [''Lumpsum investment cannot be negative''] else errors);
          errors = (case custom_equity_percentage p of
                      None \<Rightarrow> errors
                    | Some c \<Rightarrow>
                        if c < 0 \<or> c > 100
                        then errors @ [''Custom equity percentage must be between 0 and 100'']
                        else errors)
      in (length errors = 0, errors))"

section \<open>Strategy tables\<close>

definition equity_templates :: "EquityStrategy \<Rightarrow> (string, rat) dict" where
  "equity_templates s =
     (case s of
        index_core \<Rightarrow> [(''index'', 100)]
      | market_weighted \<Rightarrow> [(''largecap'', 70), (''midcap'', 20), (''smallcap'', 10)]
      | balanced_growth \<Rightarrow> [(''largecap'', 45), (''midcap'', 30), (''smallcap'', 25)]
      | aggressive_growth \<Rightarrow> [(''largecap'', 35), (''midcap'', 35), (''smallcap'', 30)])"

text \<open>
  \<^verbatim>\<open>debt_templates\<close> has the single key \<^verbatim>\<open>"long_term"\<close>; subscripting it with another
  timeframe raises \<^verbatim>\<open>KeyError\<close>.
\<close>

definition debt_templates :: "GoalTimeframe \<Rightarrow> error + (string, rat) dict" where
  "debt_templates t =
     (case t of
        long_term \<Rightarrow> Inr [(''FD'', 100)]
      | short_term \<Rightarrow> Inl (KeyError ''short_term'')
      | medium_term \<Rightarrow> Inl (KeyError ''medium_term''))"

definition get_equity_allocation_from_risk_profile :: "RiskProfile \<Rightarrow> rat" where
  "get_equity_allocation_from_risk_profile r =
     (case r of aggressive \<Rightarrow> 85 | moderate \<Rightarrow> 65 | conservative \<Rightarrow> 45)"

definition get_age_based_strategy :: "int \<Rightarrow> EquityStrategy" where
  "get_age_based_strategy a =
     (if a < 35 then aggressive_growth
      else if a < 50 then balanced_growth
      else market_weighted)"

section \<open>Allocation engine\<close>

definition calculate_equity_debt_split :: "UserProfile \<Rightarrow> rat \<times> rat" where
  "calculate_equity_debt_split profile =
     (case custom_equity_percentage profile of
        Some c \<Rightarrow> (let equity_pct = max 0 (min 100 c) in (equity_pct, 100 - equity_pct))
      | None \<Rightarrow>
          (case risk_profile profile of
             Some r \<Rightarrow>
               (let equity_pct = get_equity_allocation_from_risk_profile r
                in (equity_pct, 100 - equity_pct))
           | None \<Rightarrow>
               (let equity_pct = max 20 (min 80 (100 - of_int (age profile)));
                    debt_pct = 100 - equity_pct
                in (equity_pct, debt_pct))))"

text \<open>
  \<^verbatim>\<open>str.title()\<close> on ASCII text: a letter that follows a letter is lower-cased, any
  other letter is upper-cased, other characters are kept. \<^verbatim>\<open>.replace("_", " ")\<close>
  follows it when a subcategory label is built from a fund key.
\<close>

definition is_upper :: "char \<Rightarrow> bool" where
  "is_upper c = (65 \<le> (of_char c :: nat) \<and> (of_char c :: nat) \<le> 90)"

definition is_lower :: "char \<Rightarrow> bool" where
  "is_lower c = (97 \<le> (of_char c :: nat) \<and> (of_char c :: nat) \<le> 122)"

definition to_upper :: "char \<Rightarrow> char" where
  "to_upper c = (if is_lower c then char_of ((of_char c :: nat) - 32) else c)"

definition to_lower :: "char \<Rightarrow> char" where
  "to_lower c = (if is_upper c then char_of ((of_char c :: nat) + 32) else c)"

fun title_from :: "bool \<Rightarrow> string \<Rightarrow> string" where
  "title_from prev_cased [] = []"
| "title_from prev_cased (c # cs) =
     (if is_upper c \<or> is_lower c
      then (if prev_cased then to_lower c else to_upper c) # title_from True cs
      else c # title_from False cs)"

definition title :: "string \<Rightarrow> string" where
  "title s = title_from False s"

definition replace_underscore :: "string \<Rightarrow> string" where
  "replace_underscore s = map (\<lambda>c. if c = CHR ''_'' then CHR '' '' else c) s"

definition allocate_equity ::
  "rat \<Rightarrow> EquityStrategy \<Rightarrow> bool \<Rightarrow> rat \<Rightarrow> (string, FundAllocation) dict" where
  "allocate_equity equity_pct strategy add_international sector_allocation =
     (let template = equity_templates strategy;
          allocations = [];
          international_pct = (if add_international then 10 else 0);
          sector_pct = min 15 (max 0 sector_allocation);
          base_pct = 100 - international_pct - sector_pct;
          allocations =
            fold (\<lambda>(fund_type, template_pct) acc.
                    let actual_pct = (template_pct / 100) * (equity_pct * base_pct / 100)
                    in AList.update fund_type
                         \<lparr>category = ''Equity'',
                          subcategory = replace_underscore (title fund_type),
                          percentage = round2 actual_pct,
                          amount = 0,
                          recommended_funds = []\<rparr> acc)
                 template allocations;
          allocations =
            (if add_international
             then AList.update ''international''
                    \<lparr>category = ''Equity'',
                     subcategory = ''International Equity'',
                     percentage = round2 (equity_pct * international_pct / 100),
                     amount = 0,
                     recommended_funds = []\<rparr> allocations
             else allocations);
          allocations =
            (if sector_pct > 0
             then AList.update ''sector''
                    \<lparr>category = ''Equity'',
                     subcategory = ''Sector/Thematic'',
                     percentage = round2 (equity_pct * sector_pct / 100),
                     amount = 0,
                     recommended_funds = []\<rparr> allocations
             else allocations)
      in allocations)"

definition allocate_debt ::
  "rat \<Rightarrow> GoalTimeframe \<Rightarrow> error + (string, FundAllocation) dict" where
  "allocate_debt debt_pct strategy =
     (case debt_templates strategy of
        Inl e \<Rightarrow> Inl e
      | Inr template \<Rightarrow>
          Inr (fold (\<lambda>(fund_type, template_pct) acc.
                       let actual_pct = (template_pct / 100) * debt_pct
                       in AList.update fund_type
                            \<lparr>category = ''Debt'',
                             subcategory = replace_underscore (title fund_type),
                             percentage = round2 actual_pct,
                             amount = 0,
                             recommended_funds = []\<rparr> acc)
                    template []))"

subsection \<open>Shared allocation rows\<close>

text \<open>
  A \<^verbatim>\<open>FundAllocation\<close> is a mutable object, and \<^verbatim>\<open>create_plan\<close> reaches the same
  objects through three dictionaries (\<^verbatim>\<open>equity_allocs\<close>, \<^verbatim>\<open>debt_allocs\<close> and the merged
  \<^verbatim>\<open>all_allocations\<close>). The objects therefore live in a store, a list indexed by
  address, and those dictionaries hold addresses. \<open>allocate_equity\<close> and
  \<open>allocate_debt\<close> return freshly built rows that nothing else refers to yet, so they
  are given as values; \<open>new_objects\<close> places them in the store when \<open>create_plan\<close>
  receives them.
\<close>

type_synonym addr = nat
type_synonym store = "FundAllocation list"

definition new_objects ::
  "(string, FundAllocation) dict \<Rightarrow> store \<Rightarrow> (string, addr) dict \<times> store" where
  "new_objects rows h =
     (zip (map fst rows) [length h ..< length h + length rows], h @ map snd rows)"

fun fund_amounts_loop ::
  "(string, addr) dict \<Rightarrow> rat \<Rightarrow> (string, rat) dict \<Rightarrow> store
     \<Rightarrow> (string, rat) dict \<times> store" where
  "fund_amounts_loop [] total_amount breakdown h = (breakdown, h)"
| "fund_amounts_loop ((fund_name, a) # rest) total_amount breakdown h =
     (let allocation = h ! a;
          amt = (percentage allocation / 100) * total_amount
      in fund_amounts_loop rest total_amount
           (AList.update fund_name (round2 amt) breakdown)
           (h[a := allocation\<lparr>amount := round2 amt\<rparr>]))"

definition calculate_fund_amounts ::
  "(string, addr) dict \<Rightarrow> rat \<Rightarrow> store \<Rightarrow> (string, rat) dict \<times> store" where
  "calculate_fund_amounts allocations total_amount h =
     fund_amounts_loop allocations total_amount [] h"

definition set_rebalancing_triggers ::
  "(string, addr) dict \<Rightarrow> rat \<Rightarrow> store \<Rightarrow> (string, rat \<times> rat) dict" where
  "set_rebalancing_triggers allocations drift_threshold h =
     fold (\<lambda>(fund_name, a) triggers.
             let target = percentage (h ! a);
                 lower_trigger = max 0 (target - drift_threshold);
                 upper_trigger = min 100 (target + drift_threshold)
             in AList.update fund_name (round2 lower_trigger, round2 upper_trigger) triggers)
          allocations []"

subsection \<open>Advisory text\<close>

text \<open>
  The warning and recommendation texts are fixed string literals of the source (with
  pictographs); each is represented by a constructor named after the comment that
  introduces it in the source.
\<close>

datatype warning =
    EmergencyFundWarning
  | InsuranceWarning
  | HighEquityAllocationWarning
  | AgeAppropriateWarning
  | LowInvestmentWarning
  | HighInvestmentRatioWarning

datatype recommendation =
    PortfolioSimplicity
  | RebalancingDiscipline
  | MarketTiming
  | IndexFunds
  | SipDiscipline
  | GoalBasedInvesting
  | TaxEfficiency
  | FundSelection
  | ReviewFrequency

definition generate_warnings :: "UserProfile \<Rightarrow> rat \<Rightarrow> warning list" where
  "generate_warnings profile equity_pct =
     (let warnings = [];
          warnings = (if \<not> has_emergency_fund profile \<and> equity_pct > 50
                      then warnings @ [EmergencyFundWarning] else warnings);
          warnings = (if \<not> has_adequate_insurance profile
                      then warnings @ [InsuranceWarning] else warnings);
          warnings = (if equity_pct > 80
                      then warnings @ [HighEquityAllocationWarning] else warnings);
          warnings = (if age profile > 60 \<and> equity_pct > 50
                      then warnings @ [AgeAppropriateWarning] else warnings);
          warnings = (if monthly_investment profile < 5000
                      then warnings @ [LowInvestmentWarning] else warnings);
          investment_ratio =
            (if monthly_income profile > 0
             then monthly_investment profile / monthly_income profile * 100
             else 0);
          warnings = (if investment_ratio > 50
                      then warnings @ [HighInvestmentRatioWarning] else warnings)
      in warnings)"

definition generate_recommendations ::
  "UserProfile \<Rightarrow> rat \<Rightarrow> int \<Rightarrow> recommendation list" where
  "generate_recommendations profile equity_pct num_funds =
     (let recs = [];
          recs = recs @ [PortfolioSimplicity];
          recs = recs @ [RebalancingDiscipline];
          recs = recs @ [MarketTiming];
          recs = (if equity_pct > 30 then recs @ [IndexFunds] else recs);
          recs = (if monthly_investment profile > 0 then recs @ [SipDiscipline] else recs);
          recs = recs @ [GoalBasedInvesting];
          recs = (if equity_pct > 40 then recs @ [TaxEfficiency] else recs);
          recs = recs @ [FundSelection];
          recs = recs @ [ReviewFrequency]
      in recs)"

subsection \<open>Plan creation\<close>

text \<open>
  The plan holds the two dictionaries of row addresses; the rows are read through the
  store returned with it. The creation timestamp is not part of the model.
\<close>

record AssetAllocationPlan =
  user_profile :: UserProfile
  equity_percentage :: rat
  debt_percentage :: rat
  equity_allocations :: "(string, addr) dict"
  debt_allocations :: "(string, addr) dict"
  monthly_sip_breakdown :: "(string, rat) dict"
  lumpsum_breakdown :: "(string, rat) dict"
  rebalancing_triggers :: "(string, rat \<times> rat) dict"
  warnings :: "warning list"
  recommendations :: "recommendation list"

definition create_plan ::
  "UserProfile \<Rightarrow> EquityStrategy option \<Rightarrow> GoalTimeframe \<Rightarrow> bool \<Rightarrow> rat \<Rightarrow> rat
     \<Rightarrow> error + (AssetAllocationPlan \<times> store)" where
  "create_plan profile equity_strategy debt_strategy add_international sector_allocation
       drift_threshold =
     (let (is_valid, errors) = validate profile
      in if \<not> is_valid then Inl (ValueError (''Invalid profile: '' @ join '', '' errors))
         else
           let (equity_pct, debt_pct) = calculate_equity_debt_split profile;
               equity_strategy =
                 (case equity_strategy of
                    None \<Rightarrow> get_age_based_strategy (age profile)
                  | Some s \<Rightarrow> s);
               equity_rows =
                 allocate_equity equity_pct equity_strategy add_international sector_allocation
           in case allocate_debt debt_pct debt_strategy of
                Inl e \<Rightarrow> Inl e
              | Inr debt_rows \<Rightarrow>
                  let (equity_allocs, h) = new_objects equity_rows [];
                      (debt_allocs, h) = new_objects debt_rows h;
                      all_allocations = dict_merge equity_allocs debt_allocs;
                      (monthly_sip, h) =
                        calculate_fund_amounts all_allocations (monthly_investment profile) h;
                      (lumpsum, h) =
                        calculate_fund_amounts all_allocations (lump_sum_investment profile) h;
                      triggers = set_rebalancing_triggers all_allocations drift_threshold h;
                      warnings = generate_warnings profile equity_pct;
                      recommendations =
                        generate_recommendations profile equity_pct
                          (int (length all_allocations))
                  in Inr (\<lparr>user_profile = profile,
                           equity_percentage = round2 equity_pct,
                           debt_percentage = round2 debt_pct,
                           equity_allocations = equity_allocs,
                           debt_allocations = debt_allocs,
                           monthly_sip_breakdown = monthly_sip,
                           lumpsum_breakdown = lumpsum,
                           rebalancing_triggers = triggers,
                           warnings = warnings,
                           recommendations = recommendations\<rparr>, h))"

section \<open>Portfolio rebalancer\<close>





section \<open>The engine and the rebalancer in double precision\<close>

text \<open>
  The functions of this section are the functions above with every arithmetic operation
  of the source replaced by its double-precision operation, in the source's order. Their
  numeric arguments stand for doubles. The equity percentages that come from a risk tag or
  from the age are Python \<^verbatim>\<open>int\<close>s, on which subtraction is exact; so is
  \<^verbatim>\<open>100 - international_pct\<close>.
\<close>

definition calculate_equity_debt_split_fp :: "UserProfile \<Rightarrow> rat \<times> rat" where
  "calculate_equity_debt_split_fp profile =
     (case custom_equity_percentage profile of
        Some c \<Rightarrow> (let equity_pct = max 0 (min 100 c) in (equity_pct, fsub 100 equity_pct))
      | None \<Rightarrow>
          (case risk_profile profile of
             Some r \<Rightarrow>
               (let equity_pct = get_equity_allocation_from_risk_profile r
                in (equity_pct, 100 - equity_pct))
           | None \<Rightarrow>
               (let equity_pct = max 20 (min 80 (100 - of_int (age profile)));
                    debt_pct = 100 - equity_pct
                in (equity_pct, debt_pct))))"

definition allocate_equity_fp ::
  "rat \<Rightarrow> EquityStrategy \<Rightarrow> bool \<Rightarrow> rat \<Rightarrow> (string, FundAllocation) dict" where
  "allocate_equity_fp equity_pct strategy add_international sector_allocation =
     (let template = equity_templates strategy;
          allocations = [];
          international_pct = (if add_international then 10 else 0);
          sector_pct = min 15 (max 0 sector_allocation);
          base_pct = fsub (100 - international_pct) sector_pct;
          allocations =
            fold (\<lambda>(fund_type, template_pct) acc.
                    let actual_pct =
                          fmul (fdiv template_pct 100) (fdiv (fmul equity_pct base_pct) 100)
                    in AList.update fund_type
                         \<lparr>category = ''Equity'',
                          subcategory = replace_underscore (title fund_type),
                          percentage = fround2 actual_pct,
                          amount = 0,
                          recommended_funds = []\<rparr> acc)
                 template allocations;
          allocations =
            (if add_international
             then AList.update ''international''
                    \<lparr>category = ''Equity'',
                     subcategory = ''International Equity'',
                     percentage = fround2 (fdiv (fmul equity_pct international_pct) 100),
                     amount = 0,
                     recommended_funds = []\<rparr> allocations
             else allocations);
          allocations =
            (if sector_pct > 0
             then AList.update ''sector''
                    \<lparr>category = ''Equity'',
                     subcategory = ''Sector/Thematic'',
                     percentage = fround2 (fdiv (fmul equity_pct sector_pct) 100),
                     amount = 0,
                     recommended_funds = []\<rparr> allocations
             else allocations)
      in allocations)"

definition allocate_debt_fp ::
  "rat \<Rightarrow> GoalTimeframe \<Rightarrow> error + (string, FundAllocation) dict" where
  "allocate_debt_fp debt_pct strategy =
     (case debt_templates strategy of
        Inl e \<Rightarrow> Inl e
      | Inr template \<Rightarrow>
          Inr (fold (\<lambda>(fund_type, template_pct) acc.
                       let actual_pct = fmul (fdiv template_pct 100) debt_pct
                       in AList.update fund_type
                            \<lparr>category = ''Debt'',
                             subcategory = replace_underscore (title fund_type),
                             percentage = fround2 actual_pct,
                             amount = 0,
                             recommended_funds = []\<rparr> acc)
                    template []))"

fun fund_amounts_loop_fp ::
  "(string, addr) dict \<Rightarrow> rat \<Rightarrow> (string, rat) dict \<Rightarrow> store
     \<Rightarrow> (string, rat) dict \<times> store" where
  "fund_amounts_loop_fp [] total_amount breakdown h = (breakdown, h)"
| "fund_amounts_loop_fp ((fund_name, a) # rest) total_amount breakdown h =
     (let allocation = h ! a;
          amt = fmul (fdiv (percentage allocation) 100) total_amount
      in fund_amounts_loop_fp rest total_amount
           (AList.update fund_name (fround2 amt) breakdown)
           (h[a := allocation\<lparr>amount := fround2 amt\<rparr>]))"

definition calculate_fund_amounts_fp ::
  "(string, addr) dict \<Rightarrow> rat \<Rightarrow> store \<Rightarrow> (string, rat) dict \<times> store" where
  "calculate_fund_amounts_fp allocations total_amount h =
     fund_amounts_loop_fp allocations total_amount [] h"

definition set_rebalancing_triggers_fp ::
  "(string, addr) dict \<Rightarrow> rat \<Rightarrow> store \<Rightarrow> (string, rat \<times> rat) dict" where
  "set_rebalancing_triggers_fp allocations drift_threshold h =
     fold (\<lambda>(fund_name, a) triggers.
             let target = percentage (h ! a);
                 lower_trigger = max 0 (fsub target drift_threshold);
                 upper_trigger = min 100 (fadd target drift_threshold)
             in AList.update fund_name (fround2 lower_trigger, fround2 upper_trigger) triggers)
          allocations []"

definition generate_warnings_fp :: "UserProfile \<Rightarrow> rat \<Rightarrow> warning list" where
  "generate_warnings_fp profile equity_pct =
     (let warnings = [];
          warnings = (if \<not> has_emergency_fund profile \<and> equity_pct > 50
                      then warnings @ [EmergencyFundWarning] else warnings);
          warnings = (if \<not> has_adequate_insurance profile
                      then warnings @ [InsuranceWarning] else warnings);
          warnings = (if equity_pct > 80
                      then warnings @ [HighEquityAllocationWarning] else warnings);
          warnings = (if age profile > 60 \<and> equity_pct > 50
                      then warnings @ [AgeAppropriateWarning] else warnings);
          warnings = (if monthly_investment profile < 5000
                      then warnings @ [LowInvestmentWarning] else warnings);
          investment_ratio =
            (if monthly_income profile > 0
             then fmul (fdiv (monthly_investment profile) (monthly_income profile)) 100
             else 0);
          warnings = (if investment_ratio > 50
                      then warnings @ [HighInvestmentRatioWarning] else warnings)
      in warnings)"

definition create_plan_fp ::
  "UserProfile \<Rightarrow> EquityStrategy option \<Rightarrow> GoalTimeframe \<Rightarrow> bool \<Rightarrow> rat \<Rightarrow> rat
     \<Rightarrow> error + (AssetAllocationPlan \<times> store)" where
  "create_plan_fp profile equity_strategy debt_strategy add_international sector_allocation
       drift_threshold =
     (let (is_valid, errors) = validate profile
      in if \<not> is_valid then Inl (ValueError (''Invalid profile: '' @ join '', '' errors))
         else
           let (equity_pct, debt_pct) = calculate_equity_debt_split_fp profile;
               equity_strategy =
                 (case equity_strategy of
                    None \<Rightarrow> get_age_based_strategy (age profile)
                  | Some s \<Rightarrow> s);
               equity_rows =
                 allocate_equity_fp equity_pct equity_strategy add_international
                   sector_allocation
           in case allocate_debt_fp debt_pct debt_strategy of
                Inl e \<Rightarrow> Inl e
              | Inr debt_rows \<Rightarrow>
                  let (equity_allocs, h) = new_objects equity_rows [];
                      (debt_allocs, h) = new_objects debt_rows h;
                      all_allocations = dict_merge equity_allocs debt_allocs;
                      (monthly_sip, h) =
                        calculate_fund_amounts_fp all_allocations (monthly_investment profile) h;
                      (lumpsum, h) =
                        calculate_fund_amounts_fp all_allocations (lump_sum_investment profile) h;
                      triggers = set_rebalancing_triggers_fp all_allocations drift_threshold h;
                      warnings = generate_warnings_fp profile equity_pct;
                      recommendations =
                        generate_recommendations profile equity_pct
                          (int (length all_allocations))
                  in Inr (\<lparr>user_profile = profile,
                           equity_percentage = fround2 equity_pct,
                           debt_percentage = fround2 debt_pct,
                           equity_allocations = equity_allocs,
                           debt_allocations = debt_allocs,
                           monthly_sip_breakdown = monthly_sip,
                           lumpsum_breakdown = lumpsum,
                           rebalancing_triggers = triggers,
                           warnings = warnings,
                           recommendations = recommendations\<rparr>, h))"

definition calculate_rebalance_trades_fp ::
  "(string, rat) dict \<Rightarrow> (string, rat) dict \<Rightarrow> error + (string, rat) dict" where
  "calculate_rebalance_trades_fp current_values target_allocation_pct =
     (let total_value = fsum (map snd current_values)
      in if total_value \<le> 0 then Inl (ValueError ''Current portfolio value must be positive'')
         else
           let target_amounts =
                 fold (\<lambda>fund acc.
                         let target_pct = dict_get target_allocation_pct fund 0
                         in AList.update fund (fmul (fdiv target_pct 100) total_value) acc)
                      (remdups (map fst current_values @ map fst target_allocation_pct)) [];
               trades =
                 fold (\<lambda>(fund, target_val) acc.
                         let current_val = dict_get current_values fund 0;
                             trade_amount = fsub target_val current_val
                         in if \<bar>trade_amount\<bar> > 100
                            then AList.update fund (fround2 trade_amount) acc
                            else acc)
                      target_amounts []
           in Inr trades)"

section \<open>Specification-side definitions\<close>

text \<open>
  The definitions of this section follow the wording of the specification, not the
  source; the theorems below compare them with the embedded code.
\<close>

text \<open>Clamping a value to the interval from \<open>lo\<close> to \<open>hi\<close>.\<close>

definition spec_clamp :: "rat \<Rightarrow> rat \<Rightarrow> rat \<Rightarrow> rat" where
  "spec_clamp lo hi x = (if x < lo then lo else if hi < x then hi else x)"


text \<open>The six validation rules, in the order of the specification.\<close>

datatype rule =
    AgeInRange
  | IncomeNonNegative
  | InvestmentNonNegative
  | InvestmentWithinIncome
  | LumpSumNonNegative
  | CustomEquityInRange

definition spec_violates :: "UserProfile \<Rightarrow> rule \<Rightarrow> bool" where
  "spec_violates p r =
     (case r of
        AgeInRange \<Rightarrow> \<not> (18 \<le> age p \<and> age p \<le> 100)
      | IncomeNonNegative \<Rightarrow> monthly_income p < 0
      | InvestmentNonNegative \<Rightarrow> monthly_investment p < 0
      | InvestmentWithinIncome \<Rightarrow> monthly_income p < monthly_investment p
      | LumpSumNonNegative \<Rightarrow> lump_sum_investment p < 0
      | CustomEquityInRange \<Rightarrow>
          (case custom_equity_percentage p of
             None \<Rightarrow> False
           | Some c \<Rightarrow> \<not> (0 \<le> c \<and> c \<le> 100)))"

definition spec_rules :: "rule list" where
  "spec_rules =
     [AgeInRange, IncomeNonNegative, InvestmentNonNegative, InvestmentWithinIncome,
      LumpSumNonNegative, CustomEquityInRange]"

definition spec_violated_rules :: "UserProfile \<Rightarrow> rule list" where
  "spec_violated_rules p = filter (spec_violates p) spec_rules"

definition rule_message :: "rule \<Rightarrow> string" where
  "rule_message r =
     (case r of
        AgeInRange \<Rightarrow> ''Age must be between 18 and 100''
      | IncomeNonNegative \<Rightarrow> ''Monthly income cannot be negative''
      | InvestmentNonNegative \<Rightarrow> ''Monthly investment cannot be negative''
      | InvestmentWithinIncome \<Rightarrow> ''Monthly investment cannot exceed monthly income''
      | LumpSumNonNegative \<Rightarrow> ''Lumpsum investment cannot be negative''
      | CustomEquityInRange \<Rightarrow> ''Custom equity percentage must be between 0 and 100'')"

text \<open>A text names a rule when the rule's message occurs in it.\<close>

definition names_rule :: "string \<Rightarrow> rule \<Rightarrow> bool" where
  "names_rule msg r = (\<exists>pre post. msg = pre @ rule_message r @ post)"

text \<open>The six warnings in their listed order, and when each applies.\<close>

definition spec_warnings :: "warning list" where
  "spec_warnings =
     [EmergencyFundWarning, InsuranceWarning, HighEquityAllocationWarning,
      AgeAppropriateWarning, LowInvestmentWarning, HighInvestmentRatioWarning]"

definition spec_investment_ratio :: "UserProfile \<Rightarrow> rat" where
  "spec_investment_ratio p =
     (if 0 < monthly_income p then monthly_investment p / monthly_income p * 100 else 0)"

definition spec_warning_applies :: "UserProfile \<Rightarrow> rat \<Rightarrow> warning \<Rightarrow> bool" where
  "spec_warning_applies p equity_pct w =
     (case w of
        EmergencyFundWarning \<Rightarrow> \<not> has_emergency_fund p \<and> 50 < equity_pct
      | InsuranceWarning \<Rightarrow> \<not> has_adequate_insurance p
      | HighEquityAllocationWarning \<Rightarrow> 80 < equity_pct
      | AgeAppropriateWarning \<Rightarrow> 60 < age p \<and> 50 < equity_pct
      | LowInvestmentWarning \<Rightarrow> monthly_investment p < 5000
      | HighInvestmentRatioWarning \<Rightarrow> 50 < spec_investment_ratio p)"


text \<open>A freshly built allocation row: the amount is zero and no fund is recommended.\<close>

definition spec_row :: "string \<Rightarrow> string \<Rightarrow> rat \<Rightarrow> FundAllocation" where
  "spec_row cat sub pct =
     \<lparr>category = cat, subcategory = sub, percentage = pct, amount = 0,
      recommended_funds = []\<rparr>"





text \<open>Rounding to two decimals with a tie going up, the other common convention.\<close>

definition round2_half_up :: "rat \<Rightarrow> rat" where
  "round2_half_up x = of_int \<lfloor>x * 100 + 1 / 2\<rfloor> / 100"

text \<open>The nine recommendations in their order, and when each is given.\<close>

definition spec_recommendations :: "recommendation list" where
  "spec_recommendations =
     [PortfolioSimplicity, RebalancingDiscipline, MarketTiming, IndexFunds, SipDiscipline,
      GoalBasedInvesting, TaxEfficiency, FundSelection, ReviewFrequency]"

definition spec_recommendation_applies :: "UserProfile \<Rightarrow> rat \<Rightarrow> recommendation \<Rightarrow> bool" where
  "spec_recommendation_applies p equity_pct r =
     (case r of
        IndexFunds \<Rightarrow> 30 < equity_pct
      | SipDiscipline \<Rightarrow> 0 < monthly_investment p
      | TaxEfficiency \<Rightarrow> 40 < equity_pct
      | _ \<Rightarrow> True)"

section \<open>Validation and plan creation\<close>

lemma validate_spec:
  "validate p = (spec_violated_rules p = [], map rule_message (spec_violated_rules p))"
  by (simp add: validate_def spec_violated_rules_def spec_rules_def spec_violates_def
        rule_message_def Let_def not_le not_less split: option.split)

lemma allocate_debt_error: "allocate_debt d s = Inl e \<Longrightarrow> \<exists>k. e = KeyError k"
  by (cases s) (auto simp: allocate_debt_def debt_templates_def)

lemma join_names: "x \<in> set xs \<Longrightarrow> \<exists>pre post. join sep xs = pre @ x @ post"
proof (induction sep xs rule: join.induct)
  case (1 sep)
  then show ?case by simp
next
  case (2 sep y)
  then have "join sep [y] = [] @ x @ []" by simp
  then show ?case by blast
next
  case (3 sep a b bs)
  show ?case
  proof (cases "x = a")
    case True
    then have "join sep (a # b # bs) = [] @ x @ (sep @ join sep (b # bs))" by simp
    then show ?thesis by blast
  next
    case False
    with 3 obtain pre post where "join sep (b # bs) = pre @ x @ post" by auto
    then have "join sep (a # b # bs) = (a @ sep @ pre) @ x @ post" by simp
    then show ?thesis by blast
  qed
qed

text \<open>
  Claim C1. When a profile violates at least one validation rule, \<open>create_plan\<close>
  returns no plan: it fails with a \<open>ValueError\<close> whose message is
  \<^verbatim>\<open>"Invalid profile: "\<close> followed by the messages of all violated rules, in rule order and
  separated by commas, so every violated rule is named in it. When a profile violates no
  rule, \<open>create_plan\<close> never fails with a \<open>ValueError\<close>.
\<close>

theorem create_plan_validation:
  "(spec_violated_rules p \<noteq> [] \<longrightarrow>
      (\<exists>msg. create_plan p es ds ai sa dt = Inl (ValueError msg) \<and>
             msg = ''Invalid profile: '' @ join '', '' (map rule_message (spec_violated_rules p)) \<and>
             (\<forall>r. spec_violates p r \<longrightarrow> names_rule msg r))) \<and>
   (spec_violated_rules p = [] \<longrightarrow>
      (\<forall>msg. create_plan p es ds ai sa dt \<noteq> Inl (ValueError msg)))"
proof (intro conjI impI)
  assume bad: "spec_violated_rules p \<noteq> []"
  let ?msg = "''Invalid profile: '' @ join '', '' (map rule_message (spec_violated_rules p))"
  have res: "create_plan p es ds ai sa dt = Inl (ValueError ?msg)"
    using bad by (simp add: create_plan_def validate_spec)
  have "names_rule ?msg r" if v: "spec_violates p r" for r
  proof -
    have "r \<in> set spec_rules" by (cases r) (simp_all add: spec_rules_def)
    with v have "rule_message r \<in> set (map rule_message (spec_violated_rules p))"
      by (simp add: spec_violated_rules_def)
    then obtain pre post where
      "join '', '' (map rule_message (spec_violated_rules p)) = pre @ rule_message r @ post"
      using join_names by blast
    then have "?msg = (''Invalid profile: '' @ pre) @ rule_message r @ post" by simp
    then show ?thesis unfolding names_rule_def by blast
  qed
  with res show "\<exists>msg. create_plan p es ds ai sa dt = Inl (ValueError msg) \<and>
             msg = ?msg \<and> (\<forall>r. spec_violates p r \<longrightarrow> names_rule msg r)"
    by blast
next
  assume ok: "spec_violated_rules p = []"
  show "\<forall>msg. create_plan p es ds ai sa dt \<noteq> Inl (ValueError msg)"
  proof (cases "allocate_debt (snd (calculate_equity_debt_split p)) ds")
    case (Inl e)
    then obtain k where "e = KeyError k" using allocate_debt_error by blast
    with Inl ok show ?thesis
      by (simp add: create_plan_def validate_spec split_beta Let_def)
  next
    case (Inr rows)
    with ok show ?thesis
      by (simp add: create_plan_def validate_spec split_beta Let_def)
  qed
qed

theorem create_plan_validation_witness:
  "spec_violated_rules
     \<lparr>age = 10, monthly_income = 1000, monthly_investment = 2000,
      lump_sum_investment = 0, risk_profile = None, has_emergency_fund = False,
      has_adequate_insurance = False, custom_equity_percentage = None, goals = []\<rparr>
     = [AgeInRange, InvestmentWithinIncome] \<and>
   create_plan
     \<lparr>age = 10, monthly_income = 1000, monthly_investment = 2000,
      lump_sum_investment = 0, risk_profile = None, has_emergency_fund = False,
      has_adequate_insurance = False, custom_equity_percentage = None, goals = []\<rparr>
     None long_term False 0 5
     = Inl (ValueError
         ''Invalid profile: Age must be between 18 and 100, Monthly investment cannot exceed monthly income'') \<and>
   spec_violated_rules
     \<lparr>age = 30, monthly_income = 100000, monthly_investment = 30000,
      lump_sum_investment = 0, risk_profile = None, has_emergency_fund = False,
      has_adequate_insurance = False, custom_equity_percentage = None, goals = []\<rparr> = [] \<and>
   (\<forall>msg. create_plan
     \<lparr>age = 30, monthly_income = 100000, monthly_investment = 30000,
      lump_sum_investment = 0, risk_profile = None, has_emergency_fund = False,
      has_adequate_insurance = False, custom_equity_percentage = None, goals = []\<rparr>
     None long_term False 0 5 \<noteq> Inl (ValueError msg))"
proof -
  let ?bad = "\<lparr>age = 10, monthly_income = 1000, monthly_investment = 2000,
      lump_sum_investment = 0, risk_profile = None, has_emergency_fund = False,
      has_adequate_insurance = False, custom_equity_percentage = None, goals = []\<rparr>"
  let ?good = "\<lparr>age = 30, monthly_income = 100000, monthly_investment = 30000,
      lump_sum_investment = 0, risk_profile = None, has_emergency_fund = False,
      has_adequate_insurance = False, custom_equity_percentage = None, goals = []\<rparr>"
  have bad: "spec_violated_rules ?bad = [AgeInRange, InvestmentWithinIncome]"
    by (simp add: spec_violated_rules_def spec_rules_def spec_violates_def)
  have good: "spec_violated_rules ?good = []"
    by (simp add: spec_violated_rules_def spec_rules_def spec_violates_def)
  from bad have nonempty: "spec_violated_rules ?bad \<noteq> []" by simp
  show ?thesis
    using create_plan_validation [of ?bad None long_term False 0 5]
      create_plan_validation [of ?good None long_term False 0 5] bad good nonempty
    by (simp add: rule_message_def)
qed

section \<open>Equity and debt split\<close>


section \<open>Rounding\<close>



section \<open>Loops that fill a dictionary\<close>






section \<open>Rebalancing trades\<close>



section \<open>Drift detection\<close>





section \<open>Warnings and recommendations\<close>

text \<open>
  Claim C8. \<open>generate_warnings\<close> returns exactly the applicable warnings, in the listed
  order: the emergency-fund warning when there is no emergency fund and the equity
  percentage exceeds 50, the insurance warning when not adequately insured, the
  high-volatility warning when the equity percentage exceeds 80, the age warning when the
  age exceeds 60 and the equity percentage exceeds 50, the low-investment nudge when the
  monthly investment is below 5000, and the over-investing warning when the ratio of
  monthly investment to income exceeds 50 percent, the ratio being 0 when the income is
  not positive.
\<close>

theorem generate_warnings_spec:
  "generate_warnings p equity_pct = filter (spec_warning_applies p equity_pct) spec_warnings"
  by (simp add: generate_warnings_def spec_warnings_def spec_warning_applies_def
        spec_investment_ratio_def Let_def)

theorem generate_warnings_spec_witness:
  "generate_warnings
     \<lparr>age = 30, monthly_income = 100000, monthly_investment = 30000,
      lump_sum_investment = 0, risk_profile = None, has_emergency_fund = False,
      has_adequate_insurance = True, custom_equity_percentage = None, goals = []\<rparr> 70
     = [EmergencyFundWarning] \<and>
   generate_warnings
     \<lparr>age = 30, monthly_income = 100000, monthly_investment = 30000,
      lump_sum_investment = 0, risk_profile = None, has_emergency_fund = True,
      has_adequate_insurance = True, custom_equity_percentage = None, goals = []\<rparr> 70
     = [] \<and>
   generate_warnings
     \<lparr>age = 65, monthly_income = 0, monthly_investment = 4000,
      lump_sum_investment = 0, risk_profile = None, has_emergency_fund = False,
      has_adequate_insurance = False, custom_equity_percentage = None, goals = []\<rparr> 85
     = [EmergencyFundWarning, InsuranceWarning, HighEquityAllocationWarning,
        AgeAppropriateWarning, LowInvestmentWarning]"
  by (simp add: generate_warnings_spec spec_warnings_def spec_warning_applies_def
        spec_investment_ratio_def)

section \<open>Equity and debt rows\<close>

lemma clamp_sector: "min 15 (max 0 sa) = spec_clamp 0 15 sa"
  by (simp add: spec_clamp_def min_def max_def)

lemma allocate_equity_rows:
  "allocate_equity e s ai sa =
     map (\<lambda>(k, share).
            (k, spec_row ''Equity'' (replace_underscore (title k))
                  (round2 ((share / 100) *
                     (e * (100 - (if ai then 10 else 0) - spec_clamp 0 15 sa) / 100)))))
       (equity_templates s)
     @ (if ai
        then [(''international'',
               spec_row ''Equity'' ''International Equity'' (round2 (e * 10 / 100)))]
        else [])
     @ (if 0 < spec_clamp 0 15 sa
        then [(''sector'',
               spec_row ''Equity'' ''Sector/Thematic'' (round2 (e * spec_clamp 0 15 sa / 100)))]
        else [])"
  unfolding allocate_equity_def clamp_sector
  by (cases s) (simp_all add: equity_templates_def spec_row_def Let_def)

lemma title_keys:
  "replace_underscore (title ''largecap'') = ''Largecap''"
  "replace_underscore (title ''midcap'') = ''Midcap''"
  "replace_underscore (title ''smallcap'') = ''Smallcap''"
  "replace_underscore (title ''index'') = ''Index''"
  "replace_underscore (title ''FD'') = ''Fd''"
  by code_simp+


lemma allocate_debt_unsupported:
  "allocate_debt d short_term = Inl (KeyError ''short_term'')"
  "allocate_debt d medium_term = Inl (KeyError ''medium_term'')"
  by (simp_all add: allocate_debt_def debt_templates_def)

section \<open>Totals of the allocation maps\<close>





section \<open>Fund amounts and the shared rows\<close>

lemma update_new_key: "k \<notin> fst ` set al \<Longrightarrow> AList.update k v al = al @ [(k, v)]"
  by (induction al) auto

lemma new_objects_keys: "map fst (fst (new_objects rows h)) = map fst rows"
  by (simp add: new_objects_def)

lemma new_objects_addrs:
  "a \<in> snd ` set (fst (new_objects rows h)) \<Longrightarrow> a < length (snd (new_objects rows h))"
proof -
  assume "a \<in> snd ` set (fst (new_objects rows h))"
  then obtain k where "(k, a) \<in> set (zip (map fst rows) [length h..<length h + length rows])"
    by (auto simp: new_objects_def)
  then have "a \<in> set [length h..<length h + length rows]"
    by (rule set_zip_rightD)
  then show ?thesis by (simp add: new_objects_def)
qed

lemma round2_numeral: "round2 (numeral n) = numeral n"
  by (simp add: round2_def py_round_def)

section \<open>Recommendations\<close>

text \<open>
  Claim C10. \<open>generate_recommendations\<close> returns the nine recommendations in their order,
  of which the index-fund guidance is given exactly when the equity percentage exceeds 30,
  the SIP-discipline note exactly when the monthly investment is positive, the
  tax-efficiency note exactly when the equity percentage exceeds 40, and the six others
  always. The result does not depend on the fund-count argument, and two calls return the
  same list whenever they agree on those three conditions.
\<close>

theorem generate_recommendations_num_funds:
  "generate_recommendations p equity_pct n =
     filter (spec_recommendation_applies p equity_pct) spec_recommendations \<and>
   generate_recommendations p equity_pct n = generate_recommendations p equity_pct n' \<and>
   ((30 < equity_pct) = (30 < equity_pct') \<and> (40 < equity_pct) = (40 < equity_pct') \<and>
    (0 < monthly_investment p) = (0 < monthly_investment p') \<longrightarrow>
    generate_recommendations p equity_pct n = generate_recommendations p' equity_pct' n'')"
  by (simp add: generate_recommendations_def spec_recommendations_def
        spec_recommendation_applies_def Let_def)

theorem generate_recommendations_num_funds_witness:
  "((30 :: rat) < 70) = ((30 :: rat) < 50) \<and> ((40 :: rat) < 70) = ((40 :: rat) < 50) \<and>
   generate_recommendations
     \<lparr>age = 30, monthly_income = 100000, monthly_investment = 30000,
      lump_sum_investment = 0, risk_profile = None, has_emergency_fund = False,
      has_adequate_insurance = True, custom_equity_percentage = None, goals = []\<rparr> 70 4
   = generate_recommendations
     \<lparr>age = 61, monthly_income = 5000, monthly_investment = 10,
      lump_sum_investment = 7, risk_profile = Some moderate, has_emergency_fund = True,
      has_adequate_insurance = True, custom_equity_percentage = None, goals = []\<rparr> 50 9 \<and>
   generate_recommendations
     \<lparr>age = 30, monthly_income = 100000, monthly_investment = 0,
      lump_sum_investment = 0, risk_profile = None, has_emergency_fund = False,
      has_adequate_insurance = True, custom_equity_percentage = None, goals = []\<rparr> 35 4
   = [PortfolioSimplicity, RebalancingDiscipline, MarketTiming, IndexFunds,
      GoalBasedInvesting, FundSelection, ReviewFrequency] \<and>
   generate_recommendations
     \<lparr>age = 30, monthly_income = 100000, monthly_investment = 500,
      lump_sum_investment = 0, risk_profile = None, has_emergency_fund = False,
      has_adequate_insurance = True, custom_equity_percentage = None, goals = []\<rparr> 30 4
   = [PortfolioSimplicity, RebalancingDiscipline, MarketTiming, SipDiscipline,
      GoalBasedInvesting, FundSelection, ReviewFrequency] \<and>
   generate_recommendations
     \<lparr>age = 30, monthly_income = 100000, monthly_investment = 0,
      lump_sum_investment = 0, risk_profile = None, has_emergency_fund = False,
      has_adequate_insurance = True, custom_equity_percentage = None, goals = []\<rparr> 41 4
   = [PortfolioSimplicity, RebalancingDiscipline, MarketTiming, IndexFunds,
      GoalBasedInvesting, TaxEfficiency, FundSelection, ReviewFrequency]"
proof -
  have a: "generate_recommendations
     \<lparr>age = 30, monthly_income = 100000, monthly_investment = 30000,
      lump_sum_investment = 0, risk_profile = None, has_emergency_fund = False,
      has_adequate_insurance = True, custom_equity_percentage = None, goals = []\<rparr> 70 4
   = generate_recommendations
     \<lparr>age = 61, monthly_income = 5000, monthly_investment = 10,
      lump_sum_investment = 7, risk_profile = Some moderate, has_emergency_fund = True,
      has_adequate_insurance = True, custom_equity_percentage = None, goals = []\<rparr> 50 9"
    using generate_recommendations_num_funds
      [where equity_pct = 70 and equity_pct' = 50 and n = 4 and n' = 4 and n'' = 9
       and p = "\<lparr>age = 30, monthly_income = 100000, monthly_investment = 30000,
         lump_sum_investment = 0, risk_profile = None, has_emergency_fund = False,
         has_adequate_insurance = True, custom_equity_percentage = None, goals = []\<rparr>"
       and p' = "\<lparr>age = 61, monthly_income = 5000, monthly_investment = 10,
         lump_sum_investment = 7, risk_profile = Some moderate, has_emergency_fund = True,
         has_adequate_insurance = True, custom_equity_percentage = None, goals = []\<rparr>",
       THEN conjunct2, THEN conjunct2]
    by simp
  show ?thesis
    using a
    by (simp add: generate_recommendations_num_funds [THEN conjunct1]
          spec_recommendations_def spec_recommendation_applies_def)
qed

section \<open>Rounding to a double\<close>









lemma fl_small_ints: "fl 90 = 90" "fl 100 = 100" "fsub 90 0 = 90" "fsub 100 0 = 100"
  by code_simp+

section \<open>Rebalancing trades in double precision\<close>






section \<open>Equity rows in double precision\<close>

lemma allocate_equity_fp_rows:
  "allocate_equity_fp e s ai sa =
     map (\<lambda>(k, share).
            (k, spec_row ''Equity'' (replace_underscore (title k))
                  (fround2 (fmul (fdiv share 100)
                     (fdiv (fmul e (fsub (100 - (if ai then 10 else 0)) (spec_clamp 0 15 sa)))
                        100)))))
       (equity_templates s)
     @ (if ai
        then [(''international'',
               spec_row ''Equity'' ''International Equity'' (fround2 (fdiv (fmul e 10) 100)))]
        else [])
     @ (if 0 < spec_clamp 0 15 sa
        then [(''sector'',
               spec_row ''Equity'' ''Sector/Thematic''
                 (fround2 (fdiv (fmul e (spec_clamp 0 15 sa)) 100)))]
        else [])"
  unfolding allocate_equity_fp_def clamp_sector
  by (cases s) (simp_all add: equity_templates_def spec_row_def Let_def)

lemma equity_fp_example:
  "fround2 (fmul (fdiv 45 100) (fdiv (fmul 45 90) 100)) = fl (1823 / 100)"
  "fround2 (fmul (fdiv 30 100) (fdiv (fmul 45 90) 100)) = fl (1215 / 100)"
  "fround2 (fmul (fdiv 25 100) (fdiv (fmul 45 90) 100)) = fl (1012 / 100)"
  "fround2 (fdiv (fmul 45 10) 100) = 9 / 2"
  by code_simp+

lemma equity_fp_counterexample_values:
  "fround2 (fmul (fdiv 100 100) (fdiv (fmul (81 / 4) 90) 100)) = fl (1823 / 100)"
  "fround2 (fdiv (fmul (81 / 4) 10) 100) = fl (202 / 100)"
  "round2 (18225 / 1000) = 1822 / 100"
  "round2_half_up (18225 / 1000) = 1823 / 100"
  "round2 (2025 / 1000) = 202 / 100"
  "round2_half_up (2025 / 1000) = 203 / 100"
  "fl (1823 / 100) \<noteq> fl (1822 / 100)"
  "fl (202 / 100) \<noteq> fl (203 / 100)"
  by code_simp+

text \<open>
  Claim C3, amended. With international exposure requested, \<open>allocate_equity\<close> returns one
  row per entry of the strategy's template, then an International Equity row, then, only
  when the sector percentage clamped to the interval from 0 to 15 is positive, a
  Sector/Thematic row. The percentages are computed in double-precision arithmetic in the
  source's order, each operation rounded to the nearest double: a template row is
  (template share / 100) times ((equity percentage times base percentage) / 100), the
  international row is (equity percentage times 10) / 100 and the sector row is
  (equity percentage times clamped sector percentage) / 100, and each double is then
  rounded to two decimals. The base percentage is 90 less the clamped sector percentage,
  which is 90 when no sector allocation is requested.

  Read over exact arithmetic the claim fails: at the equity percentage 20.25 with the
  strategy \<open>index_core\<close> the program stores 18.23 for the index row, where the exact
  product 18.225 rounds to 18.22 with ties going to the even neighbour, and 2.02 for the
  international row, where the exact value 2.025 rounds to 2.03 with ties going up.
\<close>

theorem allocate_equity_fp_international:
  "allocate_equity_fp e s True sa =
     map (\<lambda>(k, share).
            (k, spec_row ''Equity'' (replace_underscore (title k))
                  (fround2 (fmul (fdiv share 100)
                     (fdiv (fmul e (fsub 90 (spec_clamp 0 15 sa))) 100)))))
       (equity_templates s)
     @ [(''international'',
         spec_row ''Equity'' ''International Equity'' (fround2 (fdiv (fmul e 10) 100)))]
     @ (if 0 < spec_clamp 0 15 sa
        then [(''sector'',
               spec_row ''Equity'' ''Sector/Thematic''
                 (fround2 (fdiv (fmul e (spec_clamp 0 15 sa)) 100)))]
        else []) \<and>
   allocate_equity_fp e s True 0 =
     map (\<lambda>(k, share).
            (k, spec_row ''Equity'' (replace_underscore (title k))
                  (fround2 (fmul (fdiv share 100) (fdiv (fmul e 90) 100)))))
       (equity_templates s)
     @ [(''international'',
         spec_row ''Equity'' ''International Equity'' (fround2 (fdiv (fmul e 10) 100)))]"
proof
  show "allocate_equity_fp e s True sa =
     map (\<lambda>(k, share).
            (k, spec_row ''Equity'' (replace_underscore (title k))
                  (fround2 (fmul (fdiv share 100)
                     (fdiv (fmul e (fsub 90 (spec_clamp 0 15 sa))) 100)))))
       (equity_templates s)
     @ [(''international'',
         spec_row ''Equity'' ''International Equity'' (fround2 (fdiv (fmul e 10) 100)))]
     @ (if 0 < spec_clamp 0 15 sa
        then [(''sector'',
               spec_row ''Equity'' ''Sector/Thematic''
                 (fround2 (fdiv (fmul e (spec_clamp 0 15 sa)) 100)))]
        else [])"
    by (simp add: allocate_equity_fp_rows)
next
  have z: "spec_clamp 0 15 0 = 0" by (simp add: spec_clamp_def)
  show "allocate_equity_fp e s True 0 =
     map (\<lambda>(k, share).
            (k, spec_row ''Equity'' (replace_underscore (title k))
                  (fround2 (fmul (fdiv share 100) (fdiv (fmul e 90) 100)))))
       (equity_templates s)
     @ [(''international'',
         spec_row ''Equity'' ''International Equity'' (fround2 (fdiv (fmul e 10) 100)))]"
    by (simp add: allocate_equity_fp_rows z fl_small_ints)
qed

theorem allocate_equity_fp_international_witness:
  "allocate_equity_fp 45 balanced_growth True 0 =
     [(''largecap'', spec_row ''Equity'' ''Largecap'' (fl (1823 / 100))),
      (''midcap'', spec_row ''Equity'' ''Midcap'' (fl (1215 / 100))),
      (''smallcap'', spec_row ''Equity'' ''Smallcap'' (fl (1012 / 100))),
      (''international'', spec_row ''Equity'' ''International Equity'' (9 / 2))]"
  using allocate_equity_fp_international [of 45 balanced_growth 0, THEN conjunct2]
    equity_fp_example
  by (simp add: equity_templates_def title_keys)

theorem allocate_equity_exact_rounding_counterexample:
  "allocate_equity_fp (81 / 4) index_core True 0 =
     [(''index'', spec_row ''Equity'' ''Index'' (fl (1823 / 100))),
      (''international'', spec_row ''Equity'' ''International Equity'' (fl (202 / 100)))] \<and>
   (100 :: rat) / 100 * (81 / 4) * 90 / 100 = 18225 / 1000 \<and>
   round2 (18225 / 1000) = 1822 / 100 \<and>
   fl (1823 / 100) \<noteq> fl (1822 / 100) \<and>
   (81 / 4 :: rat) * 10 / 100 = 2025 / 1000 \<and>
   round2_half_up (2025 / 1000) = 203 / 100 \<and>
   fl (202 / 100) \<noteq> fl (203 / 100)"
proof -
  have "allocate_equity_fp (81 / 4) index_core True 0 =
     [(''index'', spec_row ''Equity'' ''Index'' (fl (1823 / 100))),
      (''international'', spec_row ''Equity'' ''International Equity'' (fl (202 / 100)))]"
    unfolding allocate_equity_fp_rows
    using equity_fp_counterexample_values(1,2)
    by (simp add: equity_templates_def title_keys spec_clamp_def fl_small_ints)
  then show ?thesis
    using equity_fp_counterexample_values by simp
qed

section \<open>Fund amounts and the shared rows in double precision\<close>

lemma allocate_debt_fp_long_term:
  "allocate_debt_fp d long_term =
     Inr [(''FD'', spec_row ''Debt'' (replace_underscore (title ''FD''))
                   (fround2 (fmul (fdiv 100 100) d)))]"
  by (simp add: allocate_debt_fp_def debt_templates_def spec_row_def)

lemma fund_amounts_loop_fp_length:
  "length (snd (fund_amounts_loop_fp allocs t b h)) = length h"
  by (induction allocs t b h rule: fund_amounts_loop_fp.induct) (simp_all add: Let_def)

lemma update_amount_percentage:
  "percentage ((h[a := (h ! a)\<lparr>amount := v\<rparr>]) ! i) = percentage (h ! i)"
proof (cases "i = a")
  case True
  show ?thesis
  proof (cases "a < length h")
    case True
    with \<open>i = a\<close> show ?thesis by simp
  next
    case False
    with \<open>i = a\<close> show ?thesis by (simp add: list_update_beyond)
  qed
next
  case False
  then show ?thesis by simp
qed

lemma fund_amounts_loop_fp_percentage:
  "percentage (snd (fund_amounts_loop_fp allocs t b h) ! i) = percentage (h ! i)"
  by (induction allocs t b h rule: fund_amounts_loop_fp.induct)
     (simp_all add: Let_def update_amount_percentage)

lemma fund_amounts_loop_fp_untouched:
  "a \<notin> snd ` set allocs \<Longrightarrow> snd (fund_amounts_loop_fp allocs t b h) ! a = h ! a"
  by (induction allocs t b h rule: fund_amounts_loop_fp.induct) (auto simp: Let_def)

lemma fund_amounts_loop_fp_amount:
  "a \<in> snd ` set allocs \<Longrightarrow> a < length h \<Longrightarrow>
   amount (snd (fund_amounts_loop_fp allocs t b h) ! a) = fround2 (fmul (fdiv (percentage (h ! a)) 100) t)"
proof (induction allocs t b h rule: fund_amounts_loop_fp.induct)
  case (1 t b h)
  then show ?case by simp
next
  case (2 fund_name a0 rest t b h)
  let ?amt = "fmul (fdiv (percentage (h ! a0)) 100) t"
  let ?h1 = "h[a0 := (h ! a0)\<lparr>amount := fround2 ?amt\<rparr>]"
  let ?b1 = "AList.update fund_name (fround2 ?amt) b"
  have unfold: "fund_amounts_loop_fp ((fund_name, a0) # rest) t b h = fund_amounts_loop_fp rest t ?b1 ?h1"
    by (simp add: Let_def)
  show ?case
  proof (cases "a \<in> snd ` set rest")
    case True
    moreover have "a < length ?h1" using "2.prems"(2) by simp
    ultimately have "amount (snd (fund_amounts_loop_fp rest t ?b1 ?h1) ! a)
                       = fround2 (fmul (fdiv (percentage (?h1 ! a)) 100) t)"
      by (rule "2.IH" [OF refl refl])
    then show ?thesis
      by (simp only: unfold update_amount_percentage)
  next
    case False
    with "2.prems" have eq: "a = a0" by force
    from False have "snd (fund_amounts_loop_fp rest t ?b1 ?h1) ! a = ?h1 ! a"
      by (rule fund_amounts_loop_fp_untouched)
    with eq "2.prems"(2) show ?thesis
      by (simp add: Let_def)
  qed
qed

lemma fund_amounts_loop_fp_breakdown:
  "distinct (map fst allocs) \<Longrightarrow> fst ` set allocs \<inter> fst ` set b = {} \<Longrightarrow>
   fst (fund_amounts_loop_fp allocs t b h) =
     b @ map (\<lambda>(k, a). (k, fround2 (fmul (fdiv (percentage (h ! a)) 100) t))) allocs"
proof (induction allocs t b h rule: fund_amounts_loop_fp.induct)
  case (1 t b h)
  then show ?case by simp
next
  case (2 fund_name a0 rest t b h)
  let ?amt = "fmul (fdiv (percentage (h ! a0)) 100) t"
  let ?h1 = "h[a0 := (h ! a0)\<lparr>amount := fround2 ?amt\<rparr>]"
  let ?b1 = "AList.update fund_name (fround2 ?amt) b"
  have unfold: "fund_amounts_loop_fp ((fund_name, a0) # rest) t b h = fund_amounts_loop_fp rest t ?b1 ?h1"
    by (simp add: Let_def)
  from "2.prems"(2) have "fund_name \<notin> fst ` set b" by auto
  then have b1: "?b1 = b @ [(fund_name, fround2 ?amt)]" by (rule update_new_key)
  from "2.prems" have d: "distinct (map fst rest)"
    and disj: "fst ` set rest \<inter> fst ` set ?b1 = {}"
    unfolding b1 by auto
  have "fst (fund_amounts_loop_fp rest t ?b1 ?h1) =
          ?b1 @ map (\<lambda>(k, a). (k, fround2 (fmul (fdiv (percentage (?h1 ! a)) 100) t))) rest"
    using d disj by (rule "2.IH" [OF refl refl])
  then show ?case
    by (simp only: unfold update_amount_percentage b1) simp
qed

lemma allocate_equity_fp_keys:
  "distinct (map fst (allocate_equity_fp e s ai sa)) \<and>
   ''FD'' \<notin> fst ` set (allocate_equity_fp e s ai sa)"
  unfolding allocate_equity_fp_rows by (cases s) (simp_all add: equity_templates_def)

lemma create_plan_fp_result:
  assumes ok: "spec_violated_rules p = []"
  shows "\<exists>plan h0 all.
     create_plan_fp p es long_term ai sa dt =
       Inr (plan, snd (calculate_fund_amounts_fp all (lump_sum_investment p)
                        (snd (calculate_fund_amounts_fp all (monthly_investment p) h0)))) \<and>
     equity_allocations plan @ debt_allocations plan = all \<and>
     monthly_sip_breakdown plan = fst (calculate_fund_amounts_fp all (monthly_investment p) h0) \<and>
     lumpsum_breakdown plan =
       fst (calculate_fund_amounts_fp all (lump_sum_investment p)
             (snd (calculate_fund_amounts_fp all (monthly_investment p) h0))) \<and>
     distinct (map fst all) \<and> (\<forall>a \<in> snd ` set all. a < length h0)"
proof -
  define e where "e = fst (calculate_equity_debt_split_fp p)"
  define d where "d = snd (calculate_equity_debt_split_fp p)"
  define s where "s = (case es of None \<Rightarrow> get_age_based_strategy (age p) | Some s \<Rightarrow> s)"
  define E where "E = allocate_equity_fp e s ai sa"
  define row where "row = spec_row ''Debt'' (replace_underscore (title ''FD''))
                             (fround2 (fmul (fdiv 100 100) d))"
  define EA where "EA = fst (new_objects E [])"
  define h1 where "h1 = snd (new_objects E [])"
  define DA where "DA = fst (new_objects [(''FD'', row)] h1)"
  define h0 where "h0 = snd (new_objects [(''FD'', row)] h1)"
  define all where "all = dict_merge EA DA"
  define r1 where "r1 = calculate_fund_amounts_fp all (monthly_investment p) h0"
  define r2 where "r2 = calculate_fund_amounts_fp all (lump_sum_investment p) (snd r1)"
  define plan where "plan =
    \<lparr>user_profile = p, equity_percentage = fround2 e, debt_percentage = fround2 d,
     equity_allocations = EA, debt_allocations = DA,
     monthly_sip_breakdown = fst r1, lumpsum_breakdown = fst r2,
     rebalancing_triggers = set_rebalancing_triggers_fp all dt (snd r2),
     warnings = generate_warnings_fp p e,
     recommendations = generate_recommendations p e (int (length all))\<rparr>"
  have res: "create_plan_fp p es long_term ai sa dt = Inr (plan, snd r2)"
    unfolding create_plan_fp_def validate_spec
    by (simp add: ok allocate_debt_fp_long_term split_beta Let_def plan_def r2_def r1_def all_def
          h0_def DA_def h1_def EA_def row_def E_def s_def d_def e_def)
  have keysEA: "map fst EA = map fst E"
    unfolding EA_def by (rule new_objects_keys)
  have DA: "DA = [(''FD'', length h1)]"
    by (simp add: DA_def new_objects_def)
  from allocate_equity_fp_keys [of e s ai sa] have dE: "distinct (map fst E)"
    and fd: "''FD'' \<notin> fst ` set E"
    by (simp_all add: E_def)
  from fd keysEA have fd': "''FD'' \<notin> fst ` set EA"
    by (metis set_map)
  have all: "all = EA @ DA"
    unfolding all_def dict_merge_def DA using fd' by (simp add: update_new_key)
  have dist: "distinct (map fst all)"
    unfolding all using dE fd by (simp add: DA keysEA)
  have len: "length h0 = length h1 + 1"
    by (simp add: h0_def new_objects_def)
  have addrs: "a < length h0" if "a \<in> snd ` set all" for a
  proof -
    from that all have "a \<in> snd ` set EA \<or> a \<in> snd ` set DA" by auto
    then show ?thesis
    proof
      assume "a \<in> snd ` set EA"
      then have "a < length h1" unfolding EA_def h1_def by (rule new_objects_addrs)
      with len show ?thesis by simp
    next
      assume "a \<in> snd ` set DA"
      with DA len show ?thesis by simp
    qed
  qed
  have "equity_allocations plan @ debt_allocations plan = all"
    by (simp add: plan_def all)
  moreover have "monthly_sip_breakdown plan = fst r1" "lumpsum_breakdown plan = fst r2"
    by (simp_all add: plan_def)
  ultimately show ?thesis
    using res dist addrs unfolding r2_def r1_def by blast
qed

lemma age_30_rows:
  "allocate_equity_fp 70 aggressive_growth False 0 =
     [(''largecap'', spec_row ''Equity'' ''Largecap'' (49 / 2)),
      (''midcap'', spec_row ''Equity'' ''Midcap'' (49 / 2)),
      (''smallcap'', spec_row ''Equity'' ''Smallcap'' 21)]"
  "allocate_debt_fp 30 long_term = Inr [(''FD'', spec_row ''Debt'' ''Fd'' 30)]"
proof -
  have v: "fround2 (fmul (fdiv 35 100) (fdiv (fmul 70 100) 100)) = 49 / 2"
    "fround2 (fmul (fdiv 30 100) (fdiv (fmul 70 100) 100)) = 21"
    "fround2 (fmul (fdiv 100 100) 30) = 30"
    by code_simp+
  show "allocate_equity_fp 70 aggressive_growth False 0 =
     [(''largecap'', spec_row ''Equity'' ''Largecap'' (49 / 2)),
      (''midcap'', spec_row ''Equity'' ''Midcap'' (49 / 2)),
      (''smallcap'', spec_row ''Equity'' ''Smallcap'' 21)]"
    unfolding allocate_equity_fp_rows
    by (simp add: equity_templates_def title_keys spec_clamp_def fl_small_ints v)
  show "allocate_debt_fp 30 long_term = Inr [(''FD'', spec_row ''Debt'' ''Fd'' 30)]"
    unfolding allocate_debt_fp_long_term by (simp add: title_keys v)
qed

lemma create_plan_fp_age_30:
  assumes m: "0 \<le> m" "m \<le> 100000" and l: "0 \<le> l"
  shows "create_plan_fp
     \<lparr>age = 30, monthly_income = 100000, monthly_investment = m,
      lump_sum_investment = l, risk_profile = None, has_emergency_fund = False,
      has_adequate_insurance = False, custom_equity_percentage = None, goals = []\<rparr>
     None long_term False 0 5 =
    Inr (\<lparr>user_profile = \<lparr>age = 30, monthly_income = 100000, monthly_investment = m,
            lump_sum_investment = l, risk_profile = None, has_emergency_fund = False,
            has_adequate_insurance = False, custom_equity_percentage = None, goals = []\<rparr>,
          equity_percentage = 70, debt_percentage = 30,
          equity_allocations = [(''largecap'', 0), (''midcap'', 1), (''smallcap'', 2)],
          debt_allocations = [(''FD'', 3)],
          monthly_sip_breakdown =
            [(''largecap'', fround2 (fmul (fdiv (49 / 2) 100) m)),
             (''midcap'', fround2 (fmul (fdiv (49 / 2) 100) m)),
             (''smallcap'', fround2 (fmul (fdiv 21 100) m)),
             (''FD'', fround2 (fmul (fdiv 30 100) m))],
          lumpsum_breakdown =
            [(''largecap'', fround2 (fmul (fdiv (49 / 2) 100) l)),
             (''midcap'', fround2 (fmul (fdiv (49 / 2) 100) l)),
             (''smallcap'', fround2 (fmul (fdiv 21 100) l)),
             (''FD'', fround2 (fmul (fdiv 30 100) l))],
          rebalancing_triggers =
            [(''largecap'', 39 / 2, 59 / 2), (''midcap'', 39 / 2, 59 / 2),
             (''smallcap'', 16, 26), (''FD'', 25, 35)],
          warnings =
            generate_warnings_fp
              \<lparr>age = 30, monthly_income = 100000, monthly_investment = m,
               lump_sum_investment = l, risk_profile = None, has_emergency_fund = False,
               has_adequate_insurance = False, custom_equity_percentage = None,
               goals = []\<rparr> 70,
          recommendations =
            generate_recommendations
              \<lparr>age = 30, monthly_income = 100000, monthly_investment = m,
               lump_sum_investment = l, risk_profile = None, has_emergency_fund = False,
               has_adequate_insurance = False, custom_equity_percentage = None,
               goals = []\<rparr> 70 4\<rparr>,
         [(spec_row ''Equity'' ''Largecap'' (49 / 2))
            \<lparr>amount := fround2 (fmul (fdiv (49 / 2) 100) l)\<rparr>,
          (spec_row ''Equity'' ''Midcap'' (49 / 2))
            \<lparr>amount := fround2 (fmul (fdiv (49 / 2) 100) l)\<rparr>,
          (spec_row ''Equity'' ''Smallcap'' 21)
            \<lparr>amount := fround2 (fmul (fdiv 21 100) l)\<rparr>,
          (spec_row ''Debt'' ''Fd'' 30)
            \<lparr>amount := fround2 (fmul (fdiv 30 100) l)\<rparr>])"
proof -
  let ?p = "\<lparr>age = 30, monthly_income = 100000, monthly_investment = m,
      lump_sum_investment = l, risk_profile = None, has_emergency_fund = False,
      has_adequate_insurance = False, custom_equity_percentage = None, goals = []\<rparr>"
  have ok: "spec_violated_rules ?p = []"
    using m l by (simp add: spec_violated_rules_def spec_rules_def spec_violates_def)
  have sp: "calculate_equity_debt_split_fp ?p = (70, 30)"
    by (simp add: calculate_equity_debt_split_fp_def)
  have st: "get_age_based_strategy 30 = aggressive_growth"
    by (simp add: get_age_based_strategy_def)
  have no: "new_objects [(''largecap'', spec_row ''Equity'' ''Largecap'' (49 / 2)),
    (''midcap'', spec_row ''Equity'' ''Midcap'' (49 / 2)),
    (''smallcap'', spec_row ''Equity'' ''Smallcap'' 21)] [] =
     ([(''largecap'', 0), (''midcap'', 1), (''smallcap'', 2)],
      [spec_row ''Equity'' ''Largecap'' (49 / 2), spec_row ''Equity'' ''Midcap'' (49 / 2),
       spec_row ''Equity'' ''Smallcap'' 21])"
    by (simp add: new_objects_def upt_conv_Cons)
  have no2: "new_objects [(''FD'', spec_row ''Debt'' ''Fd'' 30)]
      [spec_row ''Equity'' ''Largecap'' (49 / 2), spec_row ''Equity'' ''Midcap'' (49 / 2),
       spec_row ''Equity'' ''Smallcap'' 21] =
     ([(''FD'', 3)],
      [spec_row ''Equity'' ''Largecap'' (49 / 2), spec_row ''Equity'' ''Midcap'' (49 / 2),
       spec_row ''Equity'' ''Smallcap'' 21, spec_row ''Debt'' ''Fd'' 30])"
    by (simp add: new_objects_def)
  have mg: "dict_merge [(''largecap'', 0 :: nat), (''midcap'', 1), (''smallcap'', 2)] [(''FD'', 3)]
     = [(''largecap'', 0), (''midcap'', 1), (''smallcap'', 2), (''FD'', 3)]"
    by (simp add: dict_merge_def)
  have c: "calculate_fund_amounts_fp
      [(''largecap'', 0), (''midcap'', 1), (''smallcap'', 2), (''FD'', 3)] t
      [(spec_row ''Equity'' ''Largecap'' (49 / 2))\<lparr>amount := a0\<rparr>,
       (spec_row ''Equity'' ''Midcap'' (49 / 2))\<lparr>amount := a1\<rparr>,
       (spec_row ''Equity'' ''Smallcap'' 21)\<lparr>amount := a2\<rparr>,
       (spec_row ''Debt'' ''Fd'' 30)\<lparr>amount := a3\<rparr>] =
     ([(''largecap'', fround2 (fmul (fdiv (49 / 2) 100) t)),
       (''midcap'', fround2 (fmul (fdiv (49 / 2) 100) t)),
       (''smallcap'', fround2 (fmul (fdiv 21 100) t)),
       (''FD'', fround2 (fmul (fdiv 30 100) t))],
      [(spec_row ''Equity'' ''Largecap'' (49 / 2))
         \<lparr>amount := fround2 (fmul (fdiv (49 / 2) 100) t)\<rparr>,
       (spec_row ''Equity'' ''Midcap'' (49 / 2))
         \<lparr>amount := fround2 (fmul (fdiv (49 / 2) 100) t)\<rparr>,
       (spec_row ''Equity'' ''Smallcap'' 21)
         \<lparr>amount := fround2 (fmul (fdiv 21 100) t)\<rparr>,
       (spec_row ''Debt'' ''Fd'' 30)
         \<lparr>amount := fround2 (fmul (fdiv 30 100) t)\<rparr>])" for t a0 a1 a2 a3
    by (simp add: calculate_fund_amounts_fp_def spec_row_def Let_def)
  have tr: "set_rebalancing_triggers_fp
      [(''largecap'', 0), (''midcap'', 1), (''smallcap'', 2), (''FD'', 3)] 5
      [(spec_row ''Equity'' ''Largecap'' (49 / 2))\<lparr>amount := a0\<rparr>,
       (spec_row ''Equity'' ''Midcap'' (49 / 2))\<lparr>amount := a1\<rparr>,
       (spec_row ''Equity'' ''Smallcap'' 21)\<lparr>amount := a2\<rparr>,
       (spec_row ''Debt'' ''Fd'' 30)\<lparr>amount := a3\<rparr>] =
     [(''largecap'', 39 / 2, 59 / 2), (''midcap'', 39 / 2, 59 / 2),
      (''smallcap'', 16, 26), (''FD'', 25, 35)]" for a0 a1 a2 a3
  proof -
    have t: "fround2 (max 0 (fsub (49 / 2) 5)) = 39 / 2"
      "fround2 (min 100 (fadd (49 / 2) 5)) = 59 / 2"
      "fround2 (max 0 (fsub 21 5)) = 16" "fround2 (min 100 (fadd 21 5)) = 26"
      "fround2 (max 0 (fsub 30 5)) = 25" "fround2 (min 100 (fadd 30 5)) = 35"
      by code_simp+
    show ?thesis
      by (simp add: set_rebalancing_triggers_fp_def spec_row_def Let_def t)
  qed
  have pc: "fround2 70 = 70" "fround2 30 = 30" by code_simp+
  have c0: "calculate_fund_amounts_fp
      [(''largecap'', 0), (''midcap'', 1), (''smallcap'', 2), (''FD'', 3)] t
      [spec_row ''Equity'' ''Largecap'' (49 / 2), spec_row ''Equity'' ''Midcap'' (49 / 2),
       spec_row ''Equity'' ''Smallcap'' 21, spec_row ''Debt'' ''Fd'' 30] =
     ([(''largecap'', fround2 (fmul (fdiv (49 / 2) 100) t)),
       (''midcap'', fround2 (fmul (fdiv (49 / 2) 100) t)),
       (''smallcap'', fround2 (fmul (fdiv 21 100) t)),
       (''FD'', fround2 (fmul (fdiv 30 100) t))],
      [(spec_row ''Equity'' ''Largecap'' (49 / 2))
         \<lparr>amount := fround2 (fmul (fdiv (49 / 2) 100) t)\<rparr>,
       (spec_row ''Equity'' ''Midcap'' (49 / 2))
         \<lparr>amount := fround2 (fmul (fdiv (49 / 2) 100) t)\<rparr>,
       (spec_row ''Equity'' ''Smallcap'' 21)
         \<lparr>amount := fround2 (fmul (fdiv 21 100) t)\<rparr>,
       (spec_row ''Debt'' ''Fd'' 30)
         \<lparr>amount := fround2 (fmul (fdiv 30 100) t)\<rparr>])" for t
    using c [of t 0 0 0 0] by (simp add: spec_row_def)
  show ?thesis
    unfolding create_plan_fp_def validate_spec
    by (simp add: ok sp st age_30_rows no no2 mg c0 c tr pc del: One_nat_def)
qed

lemma fund_amounts_example:
  "fround2 (fmul (fdiv (49 / 2) 100) 1001) = 981 / 4"
  "fround2 (fmul (fdiv 21 100) 1001) = fl (21021 / 100)"
  "fround2 (fmul (fdiv 30 100) 1001) = fl (3003 / 10)"
  "fround2 (fmul (fdiv (49 / 2) 100) 12345) = fl (302453 / 100)"
  "fround2 (fmul (fdiv 21 100) 12345) = fl (259245 / 100)"
  "fround2 (fmul (fdiv 30 100) 12345) = 7407 / 2"
  "fround2 (fmul (fdiv (49 / 2) 100) 1005) = fl (24622 / 100)"
  "fround2 (fmul (fdiv 21 100) 1005) = fl (21105 / 100)"
  "fround2 (fmul (fdiv 30 100) 1005) = 603 / 2"
  by code_simp+

lemma exact_rounding_values:
  "(49 / 2 :: rat) / 100 * 1001 = 49049 / 200"
  "round2 (49049 / 200) = 24524 / 100"
  "(981 / 4 :: rat) \<noteq> 24524 / 100"
  "(49 / 2 :: rat) / 100 * 1005 = 9849 / 40"
  "round2_half_up (9849 / 40) = 24623 / 100"
  "fl (24622 / 100) \<noteq> fl (24623 / 100)"
  by code_simp+

text \<open>
  Claim C9, amended. On a dictionary with distinct keys whose rows are in the store,
  \<open>calculate_fund_amounts\<close> sets the amount of each row to (percentage / 100) times the
  total pool, computed in double-precision arithmetic with each operation rounded to the
  nearest double and the product then rounded to two decimals; it leaves the percentage as
  it was and returns a dictionary with the same keys that maps each key to that amount.
  For every valid profile (and the supported debt timeframe \<open>long_term\<close>) \<open>create_plan\<close>
  returns a plan, and in the store it leaves behind every row of the plan's equity and
  debt allocations holds the lump-sum amount, the value of the second call, while the
  plan's monthly breakdown and lump-sum breakdown each map the row's key to the amount for
  their own pool.

  Read over exact arithmetic the claim fails: for the valid profile of age 30 with the
  monthly investment 1001 and the lump sum 1005 the program stores the monthly amount
  245.25 for the 24.5 percent rows, where the exact product 245.245 rounds to 245.24 with
  ties going to the even neighbour, and the lump-sum amount 246.22, where the exact product
  246.225 rounds to 246.23 with ties going up.
\<close>

theorem fund_amounts_fp_overwrite:
  "(distinct (map fst allocs) \<and> (\<forall>a \<in> snd ` set allocs. a < length h0) \<longrightarrow>
      map fst (fst (calculate_fund_amounts_fp allocs t h0)) = map fst allocs \<and>
      (\<forall>(k, a) \<in> set allocs.
          amount (snd (calculate_fund_amounts_fp allocs t h0) ! a)
            = fround2 (fmul (fdiv (percentage (h0 ! a)) 100) t) \<and>
          percentage (snd (calculate_fund_amounts_fp allocs t h0) ! a) = percentage (h0 ! a) \<and>
          map_of (fst (calculate_fund_amounts_fp allocs t h0)) k
            = Some (fround2 (fmul (fdiv (percentage (h0 ! a)) 100) t)))) \<and>
   (spec_violated_rules p = [] \<longrightarrow>
      (\<exists>plan h. create_plan_fp p es long_term ai sa dt = Inr (plan, h) \<and>
         (\<forall>(k, a) \<in> set (equity_allocations plan @ debt_allocations plan).
             a < length h \<and>
             amount (h ! a) = fround2 (fmul (fdiv (percentage (h ! a)) 100) (lump_sum_investment p)) \<and>
             map_of (lumpsum_breakdown plan) k
               = Some (fround2 (fmul (fdiv (percentage (h ! a)) 100) (lump_sum_investment p))) \<and>
             map_of (monthly_sip_breakdown plan) k
               = Some (fround2 (fmul (fdiv (percentage (h ! a)) 100) (monthly_investment p))))))"
proof (intro conjI impI)
  assume "distinct (map fst allocs) \<and> (\<forall>a \<in> snd ` set allocs. a < length h0)"
  then have d: "distinct (map fst allocs)" and v: "\<And>a. a \<in> snd ` set allocs \<Longrightarrow> a < length h0"
    by auto
  have b: "fst (calculate_fund_amounts_fp allocs t h0) =
             map (\<lambda>(k, a). (k, fround2 (fmul (fdiv (percentage (h0 ! a)) 100) t))) allocs"
    unfolding calculate_fund_amounts_fp_def
    using fund_amounts_loop_fp_breakdown [OF d, of "[]" t h0] by simp
  show "map fst (fst (calculate_fund_amounts_fp allocs t h0)) = map fst allocs"
    unfolding b by (simp add: comp_def split_beta)
  show "\<forall>(k, a) \<in> set allocs.
          amount (snd (calculate_fund_amounts_fp allocs t h0) ! a)
            = fround2 (fmul (fdiv (percentage (h0 ! a)) 100) t) \<and>
          percentage (snd (calculate_fund_amounts_fp allocs t h0) ! a) = percentage (h0 ! a) \<and>
          map_of (fst (calculate_fund_amounts_fp allocs t h0)) k
            = Some (fround2 (fmul (fdiv (percentage (h0 ! a)) 100) t))"
  proof (intro ballI, clarify, intro conjI)
    fix k a
    assume ka: "(k, a) \<in> set allocs"
    then have a: "a \<in> snd ` set allocs" by force
    show "amount (snd (calculate_fund_amounts_fp allocs t h0) ! a)
            = fround2 (fmul (fdiv (percentage (h0 ! a)) 100) t)"
      unfolding calculate_fund_amounts_fp_def
      using a v [OF a] by (rule fund_amounts_loop_fp_amount)
    show "percentage (snd (calculate_fund_amounts_fp allocs t h0) ! a) = percentage (h0 ! a)"
      unfolding calculate_fund_amounts_fp_def by (rule fund_amounts_loop_fp_percentage)
    from d ka have "map_of allocs k = Some a" by simp
    then show "map_of (fst (calculate_fund_amounts_fp allocs t h0)) k
            = Some (fround2 (fmul (fdiv (percentage (h0 ! a)) 100) t))"
      unfolding b by (simp add: map_of_map split_beta comp_def)
  qed
next
  assume ok: "spec_violated_rules p = []"
  from create_plan_fp_result [OF ok, of es ai sa dt] obtain plan h0 all where
    res: "create_plan_fp p es long_term ai sa dt =
       Inr (plan, snd (calculate_fund_amounts_fp all (lump_sum_investment p)
                        (snd (calculate_fund_amounts_fp all (monthly_investment p) h0))))" and
    allocs: "equity_allocations plan @ debt_allocations plan = all" and
    monthly: "monthly_sip_breakdown plan =
                fst (calculate_fund_amounts_fp all (monthly_investment p) h0)" and
    lump: "lumpsum_breakdown plan =
       fst (calculate_fund_amounts_fp all (lump_sum_investment p)
             (snd (calculate_fund_amounts_fp all (monthly_investment p) h0)))" and
    d: "distinct (map fst all)" and v: "\<And>a. a \<in> snd ` set all \<Longrightarrow> a < length h0"
    by blast
  let ?h1 = "snd (calculate_fund_amounts_fp all (monthly_investment p) h0)"
  let ?h2 = "snd (calculate_fund_amounts_fp all (lump_sum_investment p) ?h1)"
  have len1: "length ?h1 = length h0" and len2: "length ?h2 = length h0"
    by (simp_all add: calculate_fund_amounts_fp_def fund_amounts_loop_fp_length)
  have p1: "percentage (?h1 ! i) = percentage (h0 ! i)"
    and p2: "percentage (?h2 ! i) = percentage (h0 ! i)" for i
    by (simp_all add: calculate_fund_amounts_fp_def fund_amounts_loop_fp_percentage)
  have b1: "fst (calculate_fund_amounts_fp all (monthly_investment p) h0) =
             map (\<lambda>(k, a). (k, fround2 (fmul (fdiv (percentage (h0 ! a)) 100) (monthly_investment p)))) all"
    unfolding calculate_fund_amounts_fp_def
    using fund_amounts_loop_fp_breakdown [OF d, of "[]" "monthly_investment p" h0] by simp
  have b2: "fst (calculate_fund_amounts_fp all (lump_sum_investment p) ?h1) =
             map (\<lambda>(k, a). (k, fround2 (fmul (fdiv (percentage (h0 ! a)) 100) (lump_sum_investment p)))) all"
    unfolding calculate_fund_amounts_fp_def
    using fund_amounts_loop_fp_breakdown [OF d, of "[]" "lump_sum_investment p"
        "snd (fund_amounts_loop_fp all (monthly_investment p) [] h0)"]
      p1 [unfolded calculate_fund_amounts_fp_def]
    by simp
  have "a < length ?h2 \<and>
        amount (?h2 ! a) = fround2 (fmul (fdiv (percentage (?h2 ! a)) 100) (lump_sum_investment p)) \<and>
        map_of (lumpsum_breakdown plan) k
          = Some (fround2 (fmul (fdiv (percentage (?h2 ! a)) 100) (lump_sum_investment p))) \<and>
        map_of (monthly_sip_breakdown plan) k
          = Some (fround2 (fmul (fdiv (percentage (?h2 ! a)) 100) (monthly_investment p)))"
    if ka: "(k, a) \<in> set all" for k a
  proof -
    from ka have a: "a \<in> snd ` set all" by force
    from d ka have m: "map_of all k = Some a" by simp
    have "amount (?h2 ! a) = fround2 (fmul (fdiv (percentage (?h1 ! a)) 100) (lump_sum_investment p))"
      unfolding calculate_fund_amounts_fp_def
      using a v [OF a] len1 [unfolded calculate_fund_amounts_fp_def]
      by (intro fund_amounts_loop_fp_amount) simp_all
    moreover have "map_of (lumpsum_breakdown plan) k
          = Some (fround2 (fmul (fdiv (percentage (h0 ! a)) 100) (lump_sum_investment p)))"
      unfolding lump b2 using m by (simp add: map_of_map split_beta comp_def)
    moreover have "map_of (monthly_sip_breakdown plan) k
          = Some (fround2 (fmul (fdiv (percentage (h0 ! a)) 100) (monthly_investment p)))"
      unfolding monthly b1 using m by (simp add: map_of_map split_beta comp_def)
    ultimately show ?thesis
      using v [OF a] by (simp add: len2 p1 p2)
  qed
  with res allocs show "\<exists>plan h. create_plan_fp p es long_term ai sa dt = Inr (plan, h) \<and>
         (\<forall>(k, a) \<in> set (equity_allocations plan @ debt_allocations plan).
             a < length h \<and>
             amount (h ! a) = fround2 (fmul (fdiv (percentage (h ! a)) 100) (lump_sum_investment p)) \<and>
             map_of (lumpsum_breakdown plan) k
               = Some (fround2 (fmul (fdiv (percentage (h ! a)) 100) (lump_sum_investment p))) \<and>
             map_of (monthly_sip_breakdown plan) k
               = Some (fround2 (fmul (fdiv (percentage (h ! a)) 100) (monthly_investment p))))"
    by blast
qed

theorem fund_amounts_fp_overwrite_witness:
  "distinct (map fst [(''largecap'', 0 :: nat), (''FD'', 1)]) \<and>
   snd (calculate_fund_amounts_fp [(''largecap'', 0), (''FD'', 1)] 1001
          [spec_row ''Equity'' ''Largecap'' (49 / 2), spec_row ''Debt'' ''Fd'' 30])
     = [(spec_row ''Equity'' ''Largecap'' (49 / 2))\<lparr>amount := 981 / 4\<rparr>,
        (spec_row ''Debt'' ''Fd'' 30)\<lparr>amount := fl (3003 / 10)\<rparr>] \<and>
   spec_violated_rules
     \<lparr>age = 30, monthly_income = 100000, monthly_investment = 1001,
      lump_sum_investment = 12345, risk_profile = None, has_emergency_fund = False,
      has_adequate_insurance = False, custom_equity_percentage = None, goals = []\<rparr> = [] \<and>
   (\<exists>plan h.
      create_plan_fp
        \<lparr>age = 30, monthly_income = 100000, monthly_investment = 1001,
         lump_sum_investment = 12345, risk_profile = None, has_emergency_fund = False,
         has_adequate_insurance = False, custom_equity_percentage = None, goals = []\<rparr>
        None long_term False 0 5 = Inr (plan, h) \<and>
      equity_allocations plan = [(''largecap'', 0), (''midcap'', 1), (''smallcap'', 2)] \<and>
      debt_allocations plan = [(''FD'', 3)] \<and>
      map amount h =
        [fl (302453 / 100), fl (302453 / 100), fl (259245 / 100), 7407 / 2] \<and>
      lumpsum_breakdown plan =
        [(''largecap'', fl (302453 / 100)), (''midcap'', fl (302453 / 100)),
         (''smallcap'', fl (259245 / 100)), (''FD'', 7407 / 2)] \<and>
      monthly_sip_breakdown plan =
        [(''largecap'', 981 / 4), (''midcap'', 981 / 4),
         (''smallcap'', fl (21021 / 100)), (''FD'', fl (3003 / 10))])"
proof -
  let ?p = "\<lparr>age = 30, monthly_income = 100000, monthly_investment = 1001,
      lump_sum_investment = 12345, risk_profile = None, has_emergency_fund = False,
      has_adequate_insurance = False, custom_equity_percentage = None, goals = []\<rparr>"
  let ?allocs = "[(''largecap'', 0 :: nat), (''FD'', 1)]"
  let ?h0 = "[spec_row ''Equity'' ''Largecap'' (49 / 2), spec_row ''Debt'' ''Fd'' 30]"
  have ok: "spec_violated_rules ?p = []"
    by (simp add: spec_violated_rules_def spec_rules_def spec_violates_def)
  have d: "distinct (map fst ?allocs) \<and> (\<forall>a \<in> snd ` set ?allocs. a < length ?h0)"
    by simp
  have store: "snd (calculate_fund_amounts_fp ?allocs 1001 ?h0)
     = [(spec_row ''Equity'' ''Largecap'' (49 / 2))\<lparr>amount := 981 / 4\<rparr>,
        (spec_row ''Debt'' ''Fd'' 30)\<lparr>amount := fl (3003 / 10)\<rparr>]"
    using fund_amounts_example(1,3)
    by (simp add: calculate_fund_amounts_fp_def spec_row_def Let_def)
  from fund_amounts_fp_overwrite [of ?allocs ?h0 1001 ?p None False 0 5] ok d
  obtain plan h where res: "create_plan_fp ?p None long_term False 0 5 = Inr (plan, h)"
    by blast
  have ev: "create_plan_fp ?p None long_term False 0 5 = Inr (plan, h) \<Longrightarrow>
    equity_allocations plan = [(''largecap'', 0), (''midcap'', 1), (''smallcap'', 2)] \<and>
    debt_allocations plan = [(''FD'', 3)] \<and>
    map amount h =
        [fl (302453 / 100), fl (302453 / 100), fl (259245 / 100), 7407 / 2] \<and>
    lumpsum_breakdown plan =
        [(''largecap'', fl (302453 / 100)), (''midcap'', fl (302453 / 100)),
         (''smallcap'', fl (259245 / 100)), (''FD'', 7407 / 2)] \<and>
    monthly_sip_breakdown plan =
        [(''largecap'', 981 / 4), (''midcap'', 981 / 4),
         (''smallcap'', fl (21021 / 100)), (''FD'', fl (3003 / 10))]"
    unfolding create_plan_fp_age_30 [of 1001 12345, simplified]
    using fund_amounts_example by (auto simp: spec_row_def)
  note f = ev [OF res]
  have ex: "\<exists>plan h.
      create_plan_fp ?p None long_term False 0 5 = Inr (plan, h) \<and>
      equity_allocations plan = [(''largecap'', 0), (''midcap'', 1), (''smallcap'', 2)] \<and>
      debt_allocations plan = [(''FD'', 3)] \<and>
      map amount h =
        [fl (302453 / 100), fl (302453 / 100), fl (259245 / 100), 7407 / 2] \<and>
      lumpsum_breakdown plan =
        [(''largecap'', fl (302453 / 100)), (''midcap'', fl (302453 / 100)),
         (''smallcap'', fl (259245 / 100)), (''FD'', 7407 / 2)] \<and>
      monthly_sip_breakdown plan =
        [(''largecap'', 981 / 4), (''midcap'', 981 / 4),
         (''smallcap'', fl (21021 / 100)), (''FD'', fl (3003 / 10))]"
    by (rule exI [of _ plan], rule exI [of _ h], rule conjI [OF res f])
  from d have "distinct (map fst ?allocs)" ..
  with store ok ex show ?thesis by (intro conjI)
qed

theorem fund_amounts_exact_rounding_counterexample:
  "create_plan_fp
     \<lparr>age = 30, monthly_income = 100000, monthly_investment = 1001,
      lump_sum_investment = 1005, risk_profile = None, has_emergency_fund = False,
      has_adequate_insurance = False, custom_equity_percentage = None, goals = []\<rparr>
     None long_term False 0 5 =
     Inr (\<lparr>user_profile =
             \<lparr>age = 30, monthly_income = 100000, monthly_investment = 1001,
              lump_sum_investment = 1005, risk_profile = None, has_emergency_fund = False,
              has_adequate_insurance = False, custom_equity_percentage = None,
              goals = []\<rparr>,
           equity_percentage = 70, debt_percentage = 30,
           equity_allocations = [(''largecap'', 0), (''midcap'', 1), (''smallcap'', 2)],
           debt_allocations = [(''FD'', 3)],
           monthly_sip_breakdown =
             [(''largecap'', 981 / 4), (''midcap'', 981 / 4),
              (''smallcap'', fl (21021 / 100)), (''FD'', fl (3003 / 10))],
           lumpsum_breakdown =
             [(''largecap'', fl (24622 / 100)), (''midcap'', fl (24622 / 100)),
              (''smallcap'', fl (21105 / 100)), (''FD'', 603 / 2)],
           rebalancing_triggers =
             [(''largecap'', 39 / 2, 59 / 2), (''midcap'', 39 / 2, 59 / 2),
              (''smallcap'', 16, 26), (''FD'', 25, 35)],
           warnings = [EmergencyFundWarning, InsuranceWarning, LowInvestmentWarning],
           recommendations =
             [PortfolioSimplicity, RebalancingDiscipline, MarketTiming, IndexFunds,
              SipDiscipline, GoalBasedInvesting, TaxEfficiency, FundSelection,
              ReviewFrequency]\<rparr>,
          [(spec_row ''Equity'' ''Largecap'' (49 / 2))\<lparr>amount := fl (24622 / 100)\<rparr>,
           (spec_row ''Equity'' ''Midcap'' (49 / 2))\<lparr>amount := fl (24622 / 100)\<rparr>,
           (spec_row ''Equity'' ''Smallcap'' 21)\<lparr>amount := fl (21105 / 100)\<rparr>,
           (spec_row ''Debt'' ''Fd'' 30)\<lparr>amount := 603 / 2\<rparr>]) \<and>
   (49 / 2 :: rat) / 100 * 1001 = 49049 / 200 \<and>
   round2 (49049 / 200) = 24524 / 100 \<and>
   (981 / 4 :: rat) \<noteq> 24524 / 100 \<and>
   (49 / 2 :: rat) / 100 * 1005 = 9849 / 40 \<and>
   round2_half_up (9849 / 40) = 24623 / 100 \<and>
   fl (24622 / 100) \<noteq> fl (24623 / 100)"
proof -
  have ratio: "\<not> 50 < fmul (fdiv 1001 100000) 100" by code_simp
  have w: "generate_warnings_fp
     \<lparr>age = 30, monthly_income = 100000, monthly_investment = 1001,
      lump_sum_investment = 1005, risk_profile = None, has_emergency_fund = False,
      has_adequate_insurance = False, custom_equity_percentage = None, goals = []\<rparr> 70
     = [EmergencyFundWarning, InsuranceWarning, LowInvestmentWarning]"
    using ratio by (simp add: generate_warnings_fp_def)
  have r: "generate_recommendations
     \<lparr>age = 30, monthly_income = 100000, monthly_investment = 1001,
      lump_sum_investment = 1005, risk_profile = None, has_emergency_fund = False,
      has_adequate_insurance = False, custom_equity_percentage = None, goals = []\<rparr> 70 4
     = [PortfolioSimplicity, RebalancingDiscipline, MarketTiming, IndexFunds,
        SipDiscipline, GoalBasedInvesting, TaxEfficiency, FundSelection, ReviewFrequency]"
    by (simp add: generate_recommendations_def)
  have "create_plan_fp
     \<lparr>age = 30, monthly_income = 100000, monthly_investment = 1001,
      lump_sum_investment = 1005, risk_profile = None, has_emergency_fund = False,
      has_adequate_insurance = False, custom_equity_percentage = None, goals = []\<rparr>
     None long_term False 0 5 =
     Inr (\<lparr>user_profile =
             \<lparr>age = 30, monthly_income = 100000, monthly_investment = 1001,
              lump_sum_investment = 1005, risk_profile = None, has_emergency_fund = False,
              has_adequate_insurance = False, custom_equity_percentage = None,
              goals = []\<rparr>,
           equity_percentage = 70, debt_percentage = 30,
           equity_allocations = [(''largecap'', 0), (''midcap'', 1), (''smallcap'', 2)],
           debt_allocations = [(''FD'', 3)],
           monthly_sip_breakdown =
             [(''largecap'', 981 / 4), (''midcap'', 981 / 4),
              (''smallcap'', fl (21021 / 100)), (''FD'', fl (3003 / 10))],
           lumpsum_breakdown =
             [(''largecap'', fl (24622 / 100)), (''midcap'', fl (24622 / 100)),
              (''smallcap'', fl (21105 / 100)), (''FD'', 603 / 2)],
           rebalancing_triggers =
             [(''largecap'', 39 / 2, 59 / 2), (''midcap'', 39 / 2, 59 / 2),
              (''smallcap'', 16, 26), (''FD'', 25, 35)],
           warnings = [EmergencyFundWarning, InsuranceWarning, LowInvestmentWarning],
           recommendations =
             [PortfolioSimplicity, RebalancingDiscipline, MarketTiming, IndexFunds,
              SipDiscipline, GoalBasedInvesting, TaxEfficiency, FundSelection,
              ReviewFrequency]\<rparr>,
          [(spec_row ''Equity'' ''Largecap'' (49 / 2))\<lparr>amount := fl (24622 / 100)\<rparr>,
           (spec_row ''Equity'' ''Midcap'' (49 / 2))\<lparr>amount := fl (24622 / 100)\<rparr>,
           (spec_row ''Equity'' ''Smallcap'' 21)\<lparr>amount := fl (21105 / 100)\<rparr>,
           (spec_row ''Debt'' ''Fd'' 30)\<lparr>amount := 603 / 2\<rparr>])"
    unfolding create_plan_fp_age_30 [of 1001 1005, simplified] w r
    using fund_amounts_example by (simp add: spec_row_def)
  then show ?thesis
    using exact_rounding_values by (intro conjI)
qed

section \<open>Agreement of the two levels\<close>

text \<open>
  Validation, the failures and the keys of the equity rows do not depend on the level of
  arithmetic: the double-precision functions fail exactly as the exact ones do.
\<close>

lemma allocate_debt_fp_error: "allocate_debt_fp d s = Inl e \<Longrightarrow> \<exists>k. e = KeyError k"
  by (cases s) (auto simp: allocate_debt_fp_def debt_templates_def)

lemma create_plan_fp_invalid:
  "spec_violated_rules p \<noteq> [] \<Longrightarrow>
   create_plan_fp p es ds ai sa dt = create_plan p es ds ai sa dt"
  by (simp add: create_plan_fp_def create_plan_def validate_spec)

lemma create_plan_fp_valid:
  assumes ok: "spec_violated_rules p = []"
  shows "create_plan_fp p es ds ai sa dt \<noteq> Inl (ValueError msg)"
proof (cases "allocate_debt_fp (snd (calculate_equity_debt_split_fp p)) ds")
  case (Inl e)
  then obtain k where "e = KeyError k" using allocate_debt_fp_error by blast
  with Inl ok show ?thesis
    by (simp add: create_plan_fp_def validate_spec split_beta Let_def)
next
  case (Inr rows)
  with ok show ?thesis
    by (simp add: create_plan_fp_def validate_spec split_beta Let_def)
qed

lemma calculate_rebalance_trades_fp_zero_total:
  "fsum (map snd cv) \<le> 0 \<Longrightarrow>
   calculate_rebalance_trades_fp cv tp =
     Inl (ValueError ''Current portfolio value must be positive'')"
  by (simp add: calculate_rebalance_trades_fp_def)

lemma allocate_equity_fp_same_keys:
  "map fst (allocate_equity_fp e s ai sa) = map fst (allocate_equity e s ai sa)"
  unfolding allocate_equity_fp_rows allocate_equity_rows
  by (simp add: comp_def split_beta)

end
